theory Spec2Isabelle
  imports Main
begin

section \<open>The word game of src/components/WordsGame.tsx (type-ahead variant)\<close>

text \<open>
  The file holds three successive versions of the component. The first one (lines 1 to 511,
  with the type-ahead buffer) is modelled in full below, as a machine over one record:
  the React state of the component, its refs, the state updates queued by handlers and not
  yet rendered, the pending browser timers, the clock read by \<open>Date.now()\<close> and the
  trace of audio requests. The handlers of the two older versions follow in later sections.

  How React is read here (version 18 and later, one root):
  \<^item> all \<open>setX\<close> calls made by one event handler or one timer callback are queued and
    applied together, in call order, when the handler has returned; nothing is rendered
    while a handler runs;
  \<^item> a function passed to a setter is run when the queue is applied; setter calls made
    inside it are applied after the updates already queued;
  \<^item> a ref changes only where the code assigns \<open>ref.current\<close>; the refs that mirror
    state are assigned in effects, hence after the render that changed the state;
  \<^item> an effect runs after a render in which one of its dependencies changed
    (\<open>Object.is\<close>); its cleanup runs first. A \<open>setPhase\<close> call always passes a new
    object literal, so every applied \<open>setPhase\<close> changes the dependency \<open>phase\<close>;
  \<^item> a function declared in the component body reads the state constants of the
    render that created it.
  Timers fire at their due time, earliest first, in scheduling order among equal times.
\<close>

subsection \<open>Data\<close>

datatype phase = click_letter nat | blend_prefix nat | type_prefix nat

record KeyEvent =
  ev_key :: char
  ev_t :: nat

datatype cue = SoundEffect string | Feedback string | LetterSound "char option" | Clip string

datatype update =
    SetWordIndexNext
  | SetPhase phase
  | SetTypedBuffer string
  | SetBlendHighlightStep nat
  | SetTypingCurrentIndex nat
  | TypingIndexUpdater
  | SetAnnouncement string
  | SetShowImage bool

datatype callback =
    CbClearAnnouncement
  | CbNoop
  | CbBlendStep nat
  | CbRed nat
  | CbToType nat
  | CbProcessBuffer phase

record timer =
  tid :: nat
  due :: nat
  cb :: callback

record game =
  wordIndex :: nat
  phase :: phase
  typedBuffer :: string
  blendHighlightStep :: nat
  typingCurrentIndex :: nat
  announcement :: string
  showImage :: bool
  keyBufferRef :: "KeyEvent list"
  lastKeyRef :: "KeyEvent option"
  phaseRef :: phase
  typingCurrentIndexRef :: nat
  typedBufferRef :: string
  lettersRef :: string
  blendTimeoutsRef :: "nat list"
  lastAutoRef :: string
  processTimer :: "nat option"
  pending :: "update list"
  phaseTouched :: bool
  timers :: "timer list"
  nextTimerId :: nat
  now :: nat
  cues :: "cue list"

definition LETTERS :: "string list" where
  "LETTERS = map (\<lambda>c. [c]) ''ABCDEFGHIJKLMNOPQRSTUVWXYZ''"

definition WORDS :: "string list" where
  "WORDS = [''DOG'', ''CAT'']"

definition BUFFER_MAX :: nat where "BUFFER_MAX = 16"
definition BUFFER_ITEM_TTL_MS :: int where "BUFFER_ITEM_TTL_MS = 3000"
definition KEY_REPEAT_GUARD_MS :: int where "KEY_REPEAT_GUARD_MS = 30"

text \<open>\<open>String.prototype.toUpperCase\<close> on the ASCII range (a \<open>char\<close> is one byte).\<close>

definition toUpperChar :: "char \<Rightarrow> char" where
  "toUpperChar c =
     (case map_of (zip ''abcdefghijklmnopqrstuvwxyz'' ''ABCDEFGHIJKLMNOPQRSTUVWXYZ'') c of
        None \<Rightarrow> c
      | Some u \<Rightarrow> u)"

definition toUpperCase :: "string \<Rightarrow> string" where
  "toUpperCase s = map toUpperChar s"

text \<open>
  \<open>word = WORDS[wordIndex]\<close> and \<open>letters = word.split("")\<close>. The index is only ever
  0 or the result of \<open>(i + 1) % WORDS.length\<close>.
\<close>

definition word :: "game \<Rightarrow> string" where
  "word g = WORDS ! (wordIndex g)"

definition letters :: "game \<Rightarrow> string" where
  "letters g = word g"

text \<open>An array or string read \<open>xs[i]\<close>: \<open>undefined\<close> out of range, here \<open>None\<close>.\<close>

definition at :: "'a list \<Rightarrow> nat \<Rightarrow> 'a option" where
  "at xs i = (if i < length xs then Some (xs ! i) else None)"

subsection \<open>Timers and queued updates\<close>

definition setTimeout :: "callback \<Rightarrow> nat \<Rightarrow> game \<Rightarrow> game" where
  "setTimeout c d g =
     g\<lparr>timers := timers g @ [\<lparr>tid = nextTimerId g, due = now g + d, cb = c\<rparr>],
       nextTimerId := Suc (nextTimerId g)\<rparr>"

definition clearTimeout :: "nat \<Rightarrow> game \<Rightarrow> game" where
  "clearTimeout i g = g\<lparr>timers := filter (\<lambda>x. tid x \<noteq> i) (timers g)\<rparr>"

definition enqueue :: "update list \<Rightarrow> game \<Rightarrow> game" where
  "enqueue us g = g\<lparr>pending := pending g @ us\<rparr>"

definition playCue :: "cue \<Rightarrow> game \<Rightarrow> game" where
  "playCue c g = g\<lparr>cues := cues g @ [c]\<rparr>"

definition playSoundEffect :: "string \<Rightarrow> game \<Rightarrow> game" where
  "playSoundEffect kind g = playCue (SoundEffect kind) g"

definition clearBlendTimeouts :: "game \<Rightarrow> game" where
  "clearBlendTimeouts g =
     g\<lparr>timers := filter (\<lambda>x. tid x \<notin> set (blendTimeoutsRef g)) (timers g),
       blendTimeoutsRef := []\<rparr>"

subsection \<open>The type-ahead buffer\<close>

definition pruneBuffer :: "game \<Rightarrow> game" where
  "pruneBuffer g =
     g\<lparr>keyBufferRef :=
         filter (\<lambda>ev. int (now g) - int (ev_t ev) < BUFFER_ITEM_TTL_MS) (keyBufferRef g)\<rparr>"

definition repeatGuard :: "char \<Rightarrow> game \<Rightarrow> bool" where
  "repeatGuard k g =
     (case lastKeyRef g of
        None \<Rightarrow> False
      | Some l \<Rightarrow> ev_key l = k \<and> int (now g) - int (ev_t l) < KEY_REPEAT_GUARD_MS)"

definition addToBuffer :: "char \<Rightarrow> game \<Rightarrow> game" where
  "addToBuffer k g0 =
     (let g = pruneBuffer g0 in
      if repeatGuard k g then g
      else
        (let g1 = g\<lparr>lastKeyRef := Some \<lparr>ev_key = k, ev_t = now g\<rparr>\<rparr>;
             g2 = (if length (keyBufferRef g1) \<ge> BUFFER_MAX
                   then g1\<lparr>keyBufferRef := tl (keyBufferRef g1)\<rparr> else g1)
         in g2\<lparr>keyBufferRef := keyBufferRef g2 @ [\<lparr>ev_key = k, ev_t = now g\<rparr>]\<rparr>))"

definition getExpectedLetter :: "game \<Rightarrow> char option" where
  "getExpectedLetter g =
     (case phaseRef g of
        click_letter i \<Rightarrow> at (lettersRef g) i
      | type_prefix k \<Rightarrow> at (take k (lettersRef g)) (typingCurrentIndexRef g)
      | blend_prefix k \<Rightarrow> None)"

text \<open>
  The scan of \<open>processBuffer\<close>: the first index whose entry satisfies the test, and
  \<open>buffer.splice(i, 1)\<close>.
\<close>

fun findIndex :: "('a \<Rightarrow> bool) \<Rightarrow> 'a list \<Rightarrow> nat option" where
  "findIndex P [] = None"
| "findIndex P (x # xs) = (if P x then Some 0 else map_option Suc (findIndex P xs))"

definition splice1 :: "nat \<Rightarrow> 'a list \<Rightarrow> 'a list" where
  "splice1 i xs = take i xs @ drop (Suc i) xs"

subsection \<open>Handlers of a correct key\<close>

text \<open>
  \<open>advanceToNextPhase\<close> reads the constant \<open>phase\<close> of the render that created it,
  not \<open>phaseRef.current\<close>: that captured value is the parameter \<open>p\<close>.
\<close>

definition advanceToNextPhase :: "phase \<Rightarrow> game \<Rightarrow> game" where
  "advanceToNextPhase p g =
     (case p of
        click_letter i \<Rightarrow>
          if i = 0 then enqueue [SetPhase (click_letter 1), SetTypedBuffer ''''] g
          else if i = 1 then enqueue [SetPhase (blend_prefix 2), SetTypedBuffer ''''] g
          else if i = 2 then enqueue [SetPhase (blend_prefix 3), SetTypedBuffer ''''] g
          else g
      | blend_prefix k \<Rightarrow> g
      | type_prefix k \<Rightarrow> g)"

definition handleCorrectLetterClick :: "phase \<Rightarrow> char \<Rightarrow> game \<Rightarrow> game" where
  "handleCorrectLetterClick p ch g =
     (let g1 = playSoundEffect ''correct'' g;
          g2 = enqueue [SetAnnouncement ''Correct''] g1;
          g3 = setTimeout CbClearAnnouncement 1000 g2;
          g4 = advanceToNextPhase p g3
      in setTimeout CbNoop 100 g4)"

definition handleCorrectType :: "char \<Rightarrow> game \<Rightarrow> game" where
  "handleCorrectType ch g =
     (let g1 = playSoundEffect ''correct'' g;
          g2 = enqueue [SetAnnouncement ''Correct''] g1;
          g3 = setTimeout CbClearAnnouncement 1000 g2;
          nextBuffer = typedBufferRef g3 @ [ch];
          g4 = enqueue [SetTypedBuffer (toUpperCase nextBuffer)] g3
      in enqueue [TypingIndexUpdater] g4)"

definition resetForNext :: "game \<Rightarrow> game" where
  "resetForNext g =
     (let g1 = clearBlendTimeouts g;
          g2 = g1\<lparr>keyBufferRef := [], lastKeyRef := None\<rparr>;
          g3 = enqueue [SetWordIndexNext, SetPhase (click_letter 0), SetTypedBuffer '''',
                        SetTypingCurrentIndex 0, SetBlendHighlightStep 0] g2;
          g4 = g3\<lparr>lastAutoRef := ''''\<rparr>
      in enqueue [SetAnnouncement '''', SetShowImage False] g4)"

subsection \<open>The drain pass\<close>

lemma findIndex_less: "findIndex P xs = Some i \<Longrightarrow> i < length xs"
  by (induction xs arbitrary: i) (auto split: if_splits)

lemma length_splice1: "i < length xs \<Longrightarrow> length (splice1 i xs) < length xs"
  by (simp add: splice1_def)

lemma keyBufferRef_handleCorrectLetterClick [simp]:
  "keyBufferRef (handleCorrectLetterClick p ch g) = keyBufferRef g"
  by (simp add: handleCorrectLetterClick_def advanceToNextPhase_def setTimeout_def enqueue_def
      playSoundEffect_def playCue_def Let_def split: phase.splits)

lemma keyBufferRef_handleCorrectType [simp]:
  "keyBufferRef (handleCorrectType ch g) = keyBufferRef g"
  by (simp add: handleCorrectType_def setTimeout_def enqueue_def playSoundEffect_def
      playCue_def Let_def)

lemma length_pruneBuffer: "length (keyBufferRef (pruneBuffer g)) \<le> length (keyBufferRef g)"
  by (simp add: pruneBuffer_def)

function processBuffer :: "phase \<Rightarrow> game \<Rightarrow> game" where
  "processBuffer p g0 =
     (let g = pruneBuffer g0 in
      case getExpectedLetter g of
        None \<Rightarrow> g
      | Some expected \<Rightarrow>
          (case findIndex (\<lambda>ev. ev_key ev = expected) (keyBufferRef g) of
             None \<Rightarrow> g
           | Some i \<Rightarrow>
               processBuffer p
                 (case phaseRef g of
                    click_letter n \<Rightarrow>
                      handleCorrectLetterClick p expected
                        (g\<lparr>keyBufferRef := splice1 i (keyBufferRef g)\<rparr>)
                  | type_prefix k \<Rightarrow>
                      handleCorrectType expected
                        (g\<lparr>keyBufferRef := splice1 i (keyBufferRef g)\<rparr>)
                  | blend_prefix k \<Rightarrow> g\<lparr>keyBufferRef := splice1 i (keyBufferRef g)\<rparr>)))"
  by pat_completeness auto

termination
proof (relation "measure (\<lambda>(p, g). length (keyBufferRef g))", goal_cases)
  case 1
  show ?case by simp
next
  case (2 p g0 g expected i)
  have "i < length (keyBufferRef g)"
    using 2 by (auto dest: findIndex_less)
  then have "length (splice1 i (keyBufferRef g)) < length (keyBufferRef g0)"
    using length_splice1 [of i "keyBufferRef g"] length_pruneBuffer [of g0] 2 by simp
  then show ?case
    by (simp split: phase.split)
qed

declare processBuffer.simps [simp del]

subsection \<open>Applying queued updates (a render)\<close>

text \<open>
  \<open>TypingIndexUpdater\<close> is the function that \<open>handleCorrectType\<close> passes to
  \<open>setTypingCurrentIndex\<close>. It reads \<open>phaseRef.current\<close>, calls setters and
  \<open>resetForNext\<close>, and returns the next index.
\<close>

fun applyUpdate :: "update \<Rightarrow> game \<Rightarrow> game" where
  "applyUpdate SetWordIndexNext g = g\<lparr>wordIndex := (wordIndex g + 1) mod length WORDS\<rparr>"
| "applyUpdate (SetPhase p) g = g\<lparr>phase := p, phaseTouched := True\<rparr>"
| "applyUpdate (SetTypedBuffer s) g = g\<lparr>typedBuffer := s\<rparr>"
| "applyUpdate (SetBlendHighlightStep n) g = g\<lparr>blendHighlightStep := n\<rparr>"
| "applyUpdate (SetTypingCurrentIndex n) g = g\<lparr>typingCurrentIndex := n\<rparr>"
| "applyUpdate (SetAnnouncement s) g = g\<lparr>announcement := s\<rparr>"
| "applyUpdate (SetShowImage b) g = g\<lparr>showImage := b\<rparr>"
| "applyUpdate TypingIndexUpdater g =
     (let nextIndex = typingCurrentIndex g + 1;
          g1 = (case phaseRef g of
                  type_prefix k \<Rightarrow>
                    if nextIndex = k then
                      (if k = 2 then
                         enqueue [SetPhase (click_letter 2), SetTypedBuffer '''',
                                  SetTypingCurrentIndex 0, SetShowImage False] g
                       else if k = 3 then resetForNext (enqueue [SetShowImage False] g)
                       else g)
                    else g
                | click_letter i \<Rightarrow> g
                | blend_prefix k \<Rightarrow> g)
      in g1\<lparr>typingCurrentIndex := nextIndex\<rparr>)"

definition weight :: "update \<Rightarrow> nat" where
  "weight u = (if u = TypingIndexUpdater then 10 else 1)"

lemma nested_weight:
  "sum_list (map weight (pending (applyUpdate u (g\<lparr>pending := []\<rparr>)))) < weight u"
  by (cases u)
     (simp_all add: weight_def enqueue_def resetForNext_def clearBlendTimeouts_def Let_def
        split: phase.split)

text \<open>
  The queue is applied front to back; the updates an update function queues while it
  runs go to the back.
\<close>

function flush :: "update list \<Rightarrow> game \<Rightarrow> game" where
  "flush [] g = g"
| "flush (u # us) g =
     flush (us @ pending (applyUpdate u (g\<lparr>pending := []\<rparr>)))
           ((applyUpdate u (g\<lparr>pending := []\<rparr>))\<lparr>pending := []\<rparr>)"
  by pat_completeness auto

termination
proof (relation "measure (\<lambda>(us, g). sum_list (map weight us))", goal_cases)
  case 1
  show ?case by simp
next
  case (2 u us g)
  show ?case using nested_weight [of u g] by simp
qed

subsection \<open>Effects\<close>

fun showNat :: "nat \<Rightarrow> string" where
  "showNat n =
     (if n < 10 then [''0123456789'' ! n]
      else showNat (n div 10) @ [''0123456789'' ! (n mod 10)])"

declare showNat.simps [simp del]

definition phaseType :: "phase \<Rightarrow> string" where
  "phaseType p =
     (case p of click_letter i \<Rightarrow> ''click_letter'' | blend_prefix k \<Rightarrow> ''blend_prefix''
      | type_prefix k \<Rightarrow> ''type_prefix'')"

definition phaseSub :: "phase \<Rightarrow> nat" where
  "phaseSub p = (case p of click_letter i \<Rightarrow> i | blend_prefix k \<Rightarrow> k | type_prefix k \<Rightarrow> k)"

definition autoKey :: "game \<Rightarrow> string" where
  "autoKey g = word g @ '':'' @ phaseType (phase g) @ '':'' @ showNat (phaseSub (phase g))"

definition pushBlendTimeout :: "callback \<Rightarrow> nat \<Rightarrow> game \<Rightarrow> game" where
  "pushBlendTimeout c d g =
     (setTimeout c d g)\<lparr>blendTimeoutsRef := blendTimeoutsRef g @ [nextTimerId g]\<rparr>"

text \<open>
  The body of the effect "Auto-pronounce and handle phase transitions"
  (dependencies \<open>phase\<close>, \<open>word\<close>, \<open>letters\<close>); its cleanup is \<open>clearBlendTimeouts\<close>.
\<close>

definition autoEffect :: "game \<Rightarrow> game" where
  "autoEffect g =
     (if lastAutoRef g = autoKey g then g
      else
        (let g1 = g\<lparr>lastAutoRef := autoKey g\<rparr> in
         case phase g1 of
           click_letter i \<Rightarrow> playCue (LetterSound (at (letters g1) i)) g1
         | blend_prefix k \<Rightarrow>
             (let g2 = playCue (Clip (take k (letters g1))) g1;
                  g3 = (if k = 3 then enqueue [SetShowImage True] g2 else g2);
                  g4 = clearBlendTimeouts g3;
                  g5 = enqueue [SetBlendHighlightStep 0] g4;
                  g6 = fold (\<lambda>i. pushBlendTimeout (CbBlendStep (i + 1)) (i * 1000)) [0..<k] g5
              in pushBlendTimeout (CbRed k) (k * 1000) g6)
         | type_prefix k \<Rightarrow> g1))"

text \<open>
  The effect "Process buffer when state changes" (dependencies \<open>phase\<close>,
  \<open>typingCurrentIndex\<close>, \<open>word\<close>, \<open>letters\<close>, \<open>typedBuffer\<close>): a 0 ms timer that calls
  the \<open>processBuffer\<close> of this render; its cleanup clears that timer.
\<close>

definition processEffect :: "game \<Rightarrow> game" where
  "processEffect g =
     (setTimeout (CbProcessBuffer (phase g)) 0 g)\<lparr>processTimer := Some (nextTimerId g)\<rparr>"

definition processCleanup :: "game \<Rightarrow> game" where
  "processCleanup g = (case processTimer g of None \<Rightarrow> g | Some i \<Rightarrow> clearTimeout i g)"

text \<open>
  One render with its effects: nothing happens without a queued update; otherwise the
  queue is applied, then the cleanups of the effects whose dependencies changed run, then
  their bodies, in the order of the source (the four ref mirrors first). The flags say
  which dependencies changed: \<open>phase\<close>, \<open>typingCurrentIndex\<close>, \<open>typedBuffer\<close>, and
  \<open>word\<close> together with \<open>letters\<close> (memoised on \<open>word\<close>).
\<close>

definition cleanups :: "bool \<Rightarrow> bool \<Rightarrow> game \<Rightarrow> game" where
  "cleanups dAuto dProc g =
     (let c1 = (if dAuto then clearBlendTimeouts g else g)
      in if dProc then processCleanup c1 else c1)"

definition mirrors :: "bool \<Rightarrow> bool \<Rightarrow> bool \<Rightarrow> bool \<Rightarrow> game \<Rightarrow> game" where
  "mirrors dPhase dIndex dTyped dWord g =
     (let e1 = (if dPhase then g\<lparr>phaseRef := phase g\<rparr> else g);
          e2 = (if dIndex then e1\<lparr>typingCurrentIndexRef := typingCurrentIndex e1\<rparr> else e1);
          e3 = (if dTyped then e2\<lparr>typedBufferRef := typedBuffer e2\<rparr> else e2)
      in if dWord then e3\<lparr>lettersRef := letters e3\<rparr> else e3)"

definition bodies :: "bool \<Rightarrow> bool \<Rightarrow> game \<Rightarrow> game" where
  "bodies dAuto dProc g =
     (let e5 = (if dAuto then autoEffect g else g)
      in if dProc then processEffect e5 else e5)"

definition runEffects :: "game \<Rightarrow> game \<Rightarrow> game" where
  "runEffects g0 g =
     (let dPhase = phaseTouched g;
          dWord = (word g \<noteq> word g0);
          dIndex = (typingCurrentIndex g \<noteq> typingCurrentIndex g0);
          dTyped = (typedBuffer g \<noteq> typedBuffer g0);
          dAuto = (dPhase \<or> dWord);
          dProc = (dPhase \<or> dIndex \<or> dWord \<or> dTyped)
      in (bodies dAuto dProc
            (mirrors dPhase dIndex dTyped dWord (cleanups dAuto dProc g)))
         \<lparr>phaseTouched := False\<rparr>)"

definition renderRound :: "game \<Rightarrow> game" where
  "renderRound g0 =
     (if pending g0 = [] then g0
      else runEffects g0 (flush (pending g0) (g0\<lparr>pending := [], phaseTouched := False\<rparr>)))"

text \<open>
  The effect of a render may queue updates itself (\<open>setShowImage\<close>,
  \<open>setBlendHighlightStep\<close> on entering a blend phase), which gives a second render;
  that one changes no dependency of the effects above, so two rounds settle the component
  (lemma \<open>pending_commit\<close> below).
\<close>

definition commit :: "game \<Rightarrow> game" where
  "commit g = renderRound (renderRound g)"

subsection \<open>Timer callbacks and the keyboard handler\<close>

fun runCallback :: "callback \<Rightarrow> game \<Rightarrow> game" where
  "runCallback CbClearAnnouncement g = enqueue [SetAnnouncement ''''] g"
| "runCallback CbNoop g = g"
| "runCallback (CbBlendStep n) g = enqueue [SetBlendHighlightStep n] g"
| "runCallback (CbRed k) g =
     setTimeout (CbToType k) 100 (enqueue [SetBlendHighlightStep (k + 1)] g)"
| "runCallback (CbToType k) g =
     enqueue ([SetPhase (type_prefix k), SetTypedBuffer '''', SetTypingCurrentIndex 0]
              @ (if k \<noteq> 3 then [SetShowImage False] else [])) g"
| "runCallback (CbProcessBuffer p) g = processBuffer p g"

text \<open>
  \<open>onKey\<close> is registered once, by an effect with no dependencies, so every function it
  reaches is the one of the first render; the \<open>phase\<close> constant of that render is the
  initial state \<open>{type: "click_letter", clickIndex: 0}\<close>.
\<close>

definition isBlend :: "phase \<Rightarrow> bool" where
  "isBlend p = (case p of blend_prefix k \<Rightarrow> True | click_letter i \<Rightarrow> False | type_prefix k \<Rightarrow> False)"

definition onKey :: "string \<Rightarrow> game \<Rightarrow> game" where
  "onKey k g =
     (let ch = toUpperCase k in
      if ch \<notin> set LETTERS then g
      else if isBlend (phaseRef g) then g
      else
        (case getExpectedLetter g of
           None \<Rightarrow> g
         | Some expected \<Rightarrow>
             if ch = [expected] then processBuffer (click_letter 0) (addToBuffer (hd ch) g)
             else
               (let g1 = playSoundEffect ''wrong'' g;
                    g2 = enqueue [SetAnnouncement ''Try again''] g1;
                    g3 = setTimeout CbClearAnnouncement 1000 g2
                in addToBuffer (hd ch) g3)))"

subsection \<open>Events\<close>

text \<open>The pending timer that fires next: the earliest due time, the first scheduled among equals.\<close>

fun earliest :: "timer list \<Rightarrow> timer option" where
  "earliest [] = None"
| "earliest (x # xs) =
     (case earliest xs of
        None \<Rightarrow> Some x
      | Some y \<Rightarrow> if due y < due x then Some y else Some x)"

definition fire :: "timer \<Rightarrow> game \<Rightarrow> game" where
  "fire tm g =
     commit (runCallback (cb tm)
       (g\<lparr>timers := filter (\<lambda>x. tid x \<noteq> tid tm) (timers g), now := max (now g) (due tm)\<rparr>))"

text \<open>
  Letting the clock run to the time \<open>T\<close>: every timer due by then fires, in order. A
  callback may schedule further timers, so the loop carries fuel; \<open>None\<close> means the fuel
  ran out.
\<close>

fun advanceTo :: "nat \<Rightarrow> nat \<Rightarrow> game \<Rightarrow> game option" where
  "advanceTo 0 T g = None"
| "advanceTo (Suc n) T g =
     (case earliest (timers g) of
        None \<Rightarrow> Some (g\<lparr>now := max (now g) T\<rparr>)
      | Some tm \<Rightarrow>
          if due tm \<le> T then advanceTo n T (fire tm g)
          else Some (g\<lparr>now := max (now g) T\<rparr>))"

datatype event = KeyDown string nat | Wait nat

fun step :: "nat \<Rightarrow> event \<Rightarrow> game \<Rightarrow> game option" where
  "step n (Wait T) g = advanceTo n T g"
| "step n (KeyDown k T) g = map_option (\<lambda>g'. commit (onKey k g')) (advanceTo n T g)"

fun run :: "nat \<Rightarrow> event list \<Rightarrow> game \<Rightarrow> game option" where
  "run n [] g = Some g"
| "run n (e # es) g = (case step n e g of None \<Rightarrow> None | Some g' \<Rightarrow> run n es g')"

text \<open>The first render (the initial values of \<open>useState\<close> and \<open>useRef\<close>) and its effects.\<close>

definition initialRender :: game where
  "initialRender =
     \<lparr>wordIndex = 0, phase = click_letter 0, typedBuffer = '''', blendHighlightStep = 0,
      typingCurrentIndex = 0, announcement = '''', showImage = False,
      keyBufferRef = [], lastKeyRef = None, phaseRef = click_letter 0,
      typingCurrentIndexRef = 0, typedBufferRef = '''', lettersRef = ''DOG'',
      blendTimeoutsRef = [], lastAutoRef = '''', processTimer = None,
      pending = [], phaseTouched = False, timers = [], nextTimerId = 0, now = 0, cues = []\<rparr>"

definition mount :: game where
  "mount = commit (processEffect (autoEffect initialRender))"

section \<open>The two older versions of the component\<close>

text \<open>
  Lines 513 to 891 (correct input advances after 1.5 s) and lines 893 to 1190 (strict
  typing against the typed buffer). Their keyboard effect lists \<open>phase\<close>,
  \<open>typedBuffer\<close> (and \<open>typingCurrentIndex\<close>) as dependencies and their buttons take the
  handlers of the current render, so a handler reads the current state: the state fields
  of the record. A handler's result is what it plays, the updates it queues and the
  timers it starts (delay in ms and what the callback is).
\<close>

datatype delayed =
    DelayedClearAnnouncement
  | DelayedAdvanceClick phase
  | DelayedAdvanceType phase nat
  | DelayedResetForNext

record outcome =
  out_cues :: "cue list"
  out_updates :: "update list"
  out_timers :: "(nat \<times> delayed) list"

definition noOutcome :: outcome where
  "noOutcome = \<lparr>out_cues = [], out_updates = [], out_timers = []\<rparr>"

subsection \<open>Version with delayed advance\<close>

definition wrongOutcome :: "cue list \<Rightarrow> outcome" where
  "wrongOutcome extra =
     \<lparr>out_cues = SoundEffect ''wrong'' # extra,
      out_updates = [SetAnnouncement ''Try again''],
      out_timers = [(1000, DelayedClearAnnouncement)]\<rparr>"

definition handleLetterClick_delayed :: "char \<Rightarrow> game \<Rightarrow> outcome" where
  "handleLetterClick_delayed ch g =
     (case phase g of
        click_letter i \<Rightarrow>
          (let need = at (letters g) i in
           if Some ch \<noteq> need then wrongOutcome [LetterSound need]
           else
             \<lparr>out_cues = [SoundEffect ''correct''],
              out_updates = [SetAnnouncement ''Correct''],
              out_timers = [(1000, DelayedClearAnnouncement),
                            (1500, DelayedAdvanceClick (phase g))]\<rparr>)
      | blend_prefix k \<Rightarrow> noOutcome
      | type_prefix k \<Rightarrow> noOutcome)"

definition handleType_delayed :: "char \<Rightarrow> game \<Rightarrow> outcome" where
  "handleType_delayed ch g =
     (case phase g of
        type_prefix k \<Rightarrow>
          (let target = toUpperCase (take k (letters g));
               expectedLetter = at target (typingCurrentIndex g);
               pressed = toUpperChar ch in
           if Some pressed \<noteq> expectedLetter then wrongOutcome []
           else
             \<lparr>out_cues = [SoundEffect ''correct''],
              out_updates = [SetAnnouncement ''Correct'',
                             SetTypedBuffer (toUpperCase (typedBuffer g @ [ch]))],
              out_timers = [(1000, DelayedClearAnnouncement),
                            (1500, DelayedAdvanceType (phase g) (typingCurrentIndex g))]\<rparr>)
      | click_letter i \<Rightarrow> noOutcome
      | blend_prefix k \<Rightarrow> noOutcome)"

definition onKey_delayed :: "string \<Rightarrow> game \<Rightarrow> outcome" where
  "onKey_delayed k g =
     (let ch = toUpperCase k in
      if ch \<notin> set LETTERS then noOutcome
      else
        (case phase g of
           click_letter i \<Rightarrow> handleLetterClick_delayed (hd ch) g
         | type_prefix n \<Rightarrow> handleType_delayed (hd ch) g
         | blend_prefix n \<Rightarrow> noOutcome))"

definition resetForNext_delayed :: "game \<Rightarrow> game" where
  "resetForNext_delayed g =
     (let g1 = clearBlendTimeouts g;
          g2 = enqueue [SetWordIndexNext, SetPhase (click_letter 0), SetTypedBuffer '''',
                        SetTypingCurrentIndex 0, SetBlendHighlightStep 0] g1;
          g3 = g2\<lparr>lastAutoRef := ''''\<rparr>
      in enqueue [SetAnnouncement '''', SetShowImage False] g3)"

subsection \<open>Strict version\<close>

definition startsWith :: "string \<Rightarrow> string \<Rightarrow> bool" where
  "startsWith s t = (take (length t) s = t)"

definition handleLetterClick_strict :: "char \<Rightarrow> game \<Rightarrow> outcome" where
  "handleLetterClick_strict ch g =
     (case phase g of
        click_letter i \<Rightarrow>
          (let need = at (letters g) i in
           if Some ch \<noteq> need then
             \<lparr>out_cues = [Feedback ''failure'', LetterSound need], out_updates = [],
              out_timers = []\<rparr>
           else
             \<lparr>out_cues = [Feedback ''success''],
              out_updates =
                (if i = 0 then [SetPhase (click_letter 1), SetTypedBuffer '''']
                 else if i = 1 then [SetPhase (blend_prefix 2), SetTypedBuffer '''']
                 else if i = 2 then [SetPhase (blend_prefix 3), SetTypedBuffer '''']
                 else []),
              out_timers = []\<rparr>)
      | blend_prefix k \<Rightarrow> noOutcome
      | type_prefix k \<Rightarrow> noOutcome)"

definition handleType_strict :: "char \<Rightarrow> game \<Rightarrow> outcome" where
  "handleType_strict ch g =
     (case phase g of
        type_prefix k \<Rightarrow>
          (let target = toUpperCase (take k (letters g));
               next = toUpperCase (typedBuffer g @ [ch]) in
           if \<not> startsWith target next then
             \<lparr>out_cues = [Feedback ''failure''], out_updates = [], out_timers = []\<rparr>
           else if next = target then
             (if k = 2 then
                \<lparr>out_cues = [Feedback ''success''],
                 out_updates = [SetTypedBuffer next, SetPhase (click_letter 2),
                                SetTypedBuffer ''''],
                 out_timers = []\<rparr>
              else if k = 3 then
                \<lparr>out_cues = [Feedback ''success''], out_updates = [SetTypedBuffer next],
                 out_timers = [(350, DelayedResetForNext)]\<rparr>
              else
                \<lparr>out_cues = [Feedback ''success''], out_updates = [SetTypedBuffer next],
                 out_timers = []\<rparr>)
           else
             \<lparr>out_cues = [Feedback ''success''], out_updates = [SetTypedBuffer next],
              out_timers = []\<rparr>)
      | click_letter i \<Rightarrow> noOutcome
      | blend_prefix k \<Rightarrow> noOutcome)"

definition resetForNext_strict :: "game \<Rightarrow> game" where
  "resetForNext_strict g =
     (let g1 = clearBlendTimeouts g;
          g2 = enqueue [SetWordIndexNext, SetPhase (click_letter 0), SetTypedBuffer '''',
                        SetBlendHighlightStep 0] g1
      in g2\<lparr>lastAutoRef := ''''\<rparr>)"

subsection \<open>Timer callbacks of the two versions\<close>

text \<open>
  A callback acts on the values captured when it was scheduled. The first three belong to
  the version with delayed advance, the last one (\<open>() => resetForNext()\<close>, 350 ms) to
  the strict version.
\<close>

fun runDelayed :: "delayed \<Rightarrow> game \<Rightarrow> game" where
  "runDelayed DelayedClearAnnouncement g = enqueue [SetAnnouncement ''''] g"
| "runDelayed (DelayedAdvanceClick p) g =
     (case p of
        click_letter i \<Rightarrow>
          if i = 0 then enqueue [SetPhase (click_letter 1), SetTypedBuffer ''''] g
          else if i = 1 then enqueue [SetPhase (blend_prefix 2), SetTypedBuffer ''''] g
          else if i = 2 then enqueue [SetPhase (blend_prefix 3), SetTypedBuffer ''''] g
          else g
      | blend_prefix k \<Rightarrow> g
      | type_prefix k \<Rightarrow> g)"
| "runDelayed (DelayedAdvanceType p idx) g =
     (let g1 = enqueue [SetTypingCurrentIndex (idx + 1)] g in
      case p of
        type_prefix k \<Rightarrow>
          if idx + 1 = k then
            (if k = 2 then
               enqueue [SetPhase (click_letter 2), SetTypedBuffer '''',
                        SetTypingCurrentIndex 0, SetShowImage False] g1
             else if k = 3 then resetForNext_delayed (enqueue [SetShowImage False] g1)
             else g1)
          else g1
      | click_letter i \<Rightarrow> g1
      | blend_prefix k \<Rightarrow> g1)"
| "runDelayed DelayedResetForNext g = resetForNext_strict g"

text \<open>
  The state once a handler has returned and its queued updates are rendered (the effects
  of these versions touch neither the phase nor the typing progress, except through the
  blend timers).
\<close>

definition rendered :: "outcome \<Rightarrow> game \<Rightarrow> game" where
  "rendered out g = flush (out_updates out) (g\<lparr>pending := []\<rparr>)"

section \<open>States and observations used in the statements\<close>


text \<open>All queued updates applied, the nested ones included, and no effect run.\<close>

definition applyPending :: "game \<Rightarrow> game" where
  "applyPending g = flush (pending g) (g\<lparr>pending := []\<rparr>)"



definition pressKeys_strict :: "string \<Rightarrow> game \<Rightarrow> game" where
  "pressKeys_strict cs g = foldl (\<lambda>h c. rendered (handleType_strict c h) h) g cs"

text \<open>
  A reachable state at the start of \<open>TypePrefix(2)\<close>: "O" is pressed first and kept in
  the buffer, "D" follows at 100 ms, and the blend has run until 2200 ms
  (lemma \<open>typingEntry_reached\<close>).
\<close>

definition typingEntry :: game where
  "typingEntry =
     \<lparr>wordIndex = 0, phase = type_prefix 2, typedBuffer = [], blendHighlightStep = 3,
      typingCurrentIndex = 0, announcement = [], showImage = False, keyBufferRef = [],
      lastKeyRef = Some \<lparr>ev_key = CHR ''D'', ev_t = 100\<rparr>, phaseRef = type_prefix 2,
      typingCurrentIndexRef = 0, typedBufferRef = [], lettersRef = ''DOG'',
      blendTimeoutsRef = [], lastAutoRef = ''DOG:type_prefix:2'', processTimer = Some 12,
      pending = [], phaseTouched = False, timers = [], nextTimerId = 13, now = 2200,
      cues = [LetterSound (Some CHR ''D''), SoundEffect ''wrong'', SoundEffect ''correct'',
              LetterSound (Some CHR ''O''), SoundEffect ''correct'', Clip ''DO'']\<rparr>"

text \<open>
  A blend phase whose key buffer still holds a key pressed 3000 ms ago (a drain pass that
  runs late finds it expired).
\<close>

definition staleBlend :: game where
  "staleBlend = initialRender\<lparr>phase := blend_prefix 2, phaseRef := blend_prefix 2,
      keyBufferRef := [\<lparr>ev_key = CHR ''O'', ev_t = 0\<rparr>], now := 3000\<rparr>"

section \<open>Properties of the type-ahead variant\<close>

lemmas ops_defs = setTimeout_def enqueue_def playSoundEffect_def playCue_def
  clearTimeout_def clearBlendTimeouts_def

declare option.case_cong [cong] phase.case_cong [cong]

subsection \<open>What each operation leaves alone\<close>

lemma setTimeout_frame [simp]:
  "wordIndex (setTimeout cb0 d g) = wordIndex g"
  "phase (setTimeout cb0 d g) = phase g"
  "typedBuffer (setTimeout cb0 d g) = typedBuffer g"
  "blendHighlightStep (setTimeout cb0 d g) = blendHighlightStep g"
  "typingCurrentIndex (setTimeout cb0 d g) = typingCurrentIndex g"
  "announcement (setTimeout cb0 d g) = announcement g"
  "showImage (setTimeout cb0 d g) = showImage g"
  "keyBufferRef (setTimeout cb0 d g) = keyBufferRef g"
  "lastKeyRef (setTimeout cb0 d g) = lastKeyRef g"
  "phaseRef (setTimeout cb0 d g) = phaseRef g"
  "typingCurrentIndexRef (setTimeout cb0 d g) = typingCurrentIndexRef g"
  "typedBufferRef (setTimeout cb0 d g) = typedBufferRef g"
  "lettersRef (setTimeout cb0 d g) = lettersRef g"
  "blendTimeoutsRef (setTimeout cb0 d g) = blendTimeoutsRef g"
  "lastAutoRef (setTimeout cb0 d g) = lastAutoRef g"
  "processTimer (setTimeout cb0 d g) = processTimer g"
  "pending (setTimeout cb0 d g) = pending g"
  "phaseTouched (setTimeout cb0 d g) = phaseTouched g"
  "now (setTimeout cb0 d g) = now g"
  "cues (setTimeout cb0 d g) = cues g"
  by (simp_all add: setTimeout_def)

lemma clearTimeout_frame [simp]:
  "wordIndex (clearTimeout i g) = wordIndex g"
  "phase (clearTimeout i g) = phase g"
  "typedBuffer (clearTimeout i g) = typedBuffer g"
  "blendHighlightStep (clearTimeout i g) = blendHighlightStep g"
  "typingCurrentIndex (clearTimeout i g) = typingCurrentIndex g"
  "announcement (clearTimeout i g) = announcement g"
  "showImage (clearTimeout i g) = showImage g"
  "keyBufferRef (clearTimeout i g) = keyBufferRef g"
  "lastKeyRef (clearTimeout i g) = lastKeyRef g"
  "phaseRef (clearTimeout i g) = phaseRef g"
  "typingCurrentIndexRef (clearTimeout i g) = typingCurrentIndexRef g"
  "typedBufferRef (clearTimeout i g) = typedBufferRef g"
  "lettersRef (clearTimeout i g) = lettersRef g"
  "blendTimeoutsRef (clearTimeout i g) = blendTimeoutsRef g"
  "lastAutoRef (clearTimeout i g) = lastAutoRef g"
  "processTimer (clearTimeout i g) = processTimer g"
  "pending (clearTimeout i g) = pending g"
  "phaseTouched (clearTimeout i g) = phaseTouched g"
  "nextTimerId (clearTimeout i g) = nextTimerId g"
  "now (clearTimeout i g) = now g"
  "cues (clearTimeout i g) = cues g"
  by (simp_all add: clearTimeout_def)

lemma enqueue_frame [simp]:
  "wordIndex (enqueue us g) = wordIndex g"
  "phase (enqueue us g) = phase g"
  "typedBuffer (enqueue us g) = typedBuffer g"
  "blendHighlightStep (enqueue us g) = blendHighlightStep g"
  "typingCurrentIndex (enqueue us g) = typingCurrentIndex g"
  "announcement (enqueue us g) = announcement g"
  "showImage (enqueue us g) = showImage g"
  "keyBufferRef (enqueue us g) = keyBufferRef g"
  "lastKeyRef (enqueue us g) = lastKeyRef g"
  "phaseRef (enqueue us g) = phaseRef g"
  "typingCurrentIndexRef (enqueue us g) = typingCurrentIndexRef g"
  "typedBufferRef (enqueue us g) = typedBufferRef g"
  "lettersRef (enqueue us g) = lettersRef g"
  "blendTimeoutsRef (enqueue us g) = blendTimeoutsRef g"
  "lastAutoRef (enqueue us g) = lastAutoRef g"
  "processTimer (enqueue us g) = processTimer g"
  "phaseTouched (enqueue us g) = phaseTouched g"
  "timers (enqueue us g) = timers g"
  "nextTimerId (enqueue us g) = nextTimerId g"
  "now (enqueue us g) = now g"
  "cues (enqueue us g) = cues g"
  by (simp_all add: enqueue_def)

lemma playCue_frame [simp]:
  "wordIndex (playCue q g) = wordIndex g"
  "phase (playCue q g) = phase g"
  "typedBuffer (playCue q g) = typedBuffer g"
  "blendHighlightStep (playCue q g) = blendHighlightStep g"
  "typingCurrentIndex (playCue q g) = typingCurrentIndex g"
  "announcement (playCue q g) = announcement g"
  "showImage (playCue q g) = showImage g"
  "keyBufferRef (playCue q g) = keyBufferRef g"
  "lastKeyRef (playCue q g) = lastKeyRef g"
  "phaseRef (playCue q g) = phaseRef g"
  "typingCurrentIndexRef (playCue q g) = typingCurrentIndexRef g"
  "typedBufferRef (playCue q g) = typedBufferRef g"
  "lettersRef (playCue q g) = lettersRef g"
  "blendTimeoutsRef (playCue q g) = blendTimeoutsRef g"
  "lastAutoRef (playCue q g) = lastAutoRef g"
  "processTimer (playCue q g) = processTimer g"
  "pending (playCue q g) = pending g"
  "phaseTouched (playCue q g) = phaseTouched g"
  "timers (playCue q g) = timers g"
  "nextTimerId (playCue q g) = nextTimerId g"
  "now (playCue q g) = now g"
  by (simp_all add: playCue_def)

lemma playSoundEffect_frame [simp]:
  "wordIndex (playSoundEffect k g) = wordIndex g"
  "phase (playSoundEffect k g) = phase g"
  "typedBuffer (playSoundEffect k g) = typedBuffer g"
  "blendHighlightStep (playSoundEffect k g) = blendHighlightStep g"
  "typingCurrentIndex (playSoundEffect k g) = typingCurrentIndex g"
  "announcement (playSoundEffect k g) = announcement g"
  "showImage (playSoundEffect k g) = showImage g"
  "keyBufferRef (playSoundEffect k g) = keyBufferRef g"
  "lastKeyRef (playSoundEffect k g) = lastKeyRef g"
  "phaseRef (playSoundEffect k g) = phaseRef g"
  "typingCurrentIndexRef (playSoundEffect k g) = typingCurrentIndexRef g"
  "typedBufferRef (playSoundEffect k g) = typedBufferRef g"
  "lettersRef (playSoundEffect k g) = lettersRef g"
  "blendTimeoutsRef (playSoundEffect k g) = blendTimeoutsRef g"
  "lastAutoRef (playSoundEffect k g) = lastAutoRef g"
  "processTimer (playSoundEffect k g) = processTimer g"
  "pending (playSoundEffect k g) = pending g"
  "phaseTouched (playSoundEffect k g) = phaseTouched g"
  "timers (playSoundEffect k g) = timers g"
  "nextTimerId (playSoundEffect k g) = nextTimerId g"
  "now (playSoundEffect k g) = now g"
  by (simp_all add: playSoundEffect_def playCue_def)

lemma clearBlendTimeouts_frame [simp]:
  "wordIndex (clearBlendTimeouts g) = wordIndex g"
  "phase (clearBlendTimeouts g) = phase g"
  "typedBuffer (clearBlendTimeouts g) = typedBuffer g"
  "blendHighlightStep (clearBlendTimeouts g) = blendHighlightStep g"
  "typingCurrentIndex (clearBlendTimeouts g) = typingCurrentIndex g"
  "announcement (clearBlendTimeouts g) = announcement g"
  "showImage (clearBlendTimeouts g) = showImage g"
  "keyBufferRef (clearBlendTimeouts g) = keyBufferRef g"
  "lastKeyRef (clearBlendTimeouts g) = lastKeyRef g"
  "phaseRef (clearBlendTimeouts g) = phaseRef g"
  "typingCurrentIndexRef (clearBlendTimeouts g) = typingCurrentIndexRef g"
  "typedBufferRef (clearBlendTimeouts g) = typedBufferRef g"
  "lettersRef (clearBlendTimeouts g) = lettersRef g"
  "lastAutoRef (clearBlendTimeouts g) = lastAutoRef g"
  "processTimer (clearBlendTimeouts g) = processTimer g"
  "pending (clearBlendTimeouts g) = pending g"
  "phaseTouched (clearBlendTimeouts g) = phaseTouched g"
  "nextTimerId (clearBlendTimeouts g) = nextTimerId g"
  "now (clearBlendTimeouts g) = now g"
  "cues (clearBlendTimeouts g) = cues g"
  by (simp_all add: clearBlendTimeouts_def)

lemma pruneBuffer_frame [simp]:
  "wordIndex (pruneBuffer g) = wordIndex g"
  "phase (pruneBuffer g) = phase g"
  "typedBuffer (pruneBuffer g) = typedBuffer g"
  "blendHighlightStep (pruneBuffer g) = blendHighlightStep g"
  "typingCurrentIndex (pruneBuffer g) = typingCurrentIndex g"
  "announcement (pruneBuffer g) = announcement g"
  "showImage (pruneBuffer g) = showImage g"
  "lastKeyRef (pruneBuffer g) = lastKeyRef g"
  "phaseRef (pruneBuffer g) = phaseRef g"
  "typingCurrentIndexRef (pruneBuffer g) = typingCurrentIndexRef g"
  "typedBufferRef (pruneBuffer g) = typedBufferRef g"
  "lettersRef (pruneBuffer g) = lettersRef g"
  "blendTimeoutsRef (pruneBuffer g) = blendTimeoutsRef g"
  "lastAutoRef (pruneBuffer g) = lastAutoRef g"
  "processTimer (pruneBuffer g) = processTimer g"
  "pending (pruneBuffer g) = pending g"
  "phaseTouched (pruneBuffer g) = phaseTouched g"
  "timers (pruneBuffer g) = timers g"
  "nextTimerId (pruneBuffer g) = nextTimerId g"
  "now (pruneBuffer g) = now g"
  "cues (pruneBuffer g) = cues g"
  by (simp_all add: pruneBuffer_def)

lemma addToBuffer_frame [simp]:
  "wordIndex (addToBuffer ch g) = wordIndex g"
  "phase (addToBuffer ch g) = phase g"
  "typedBuffer (addToBuffer ch g) = typedBuffer g"
  "blendHighlightStep (addToBuffer ch g) = blendHighlightStep g"
  "typingCurrentIndex (addToBuffer ch g) = typingCurrentIndex g"
  "announcement (addToBuffer ch g) = announcement g"
  "showImage (addToBuffer ch g) = showImage g"
  "phaseRef (addToBuffer ch g) = phaseRef g"
  "typingCurrentIndexRef (addToBuffer ch g) = typingCurrentIndexRef g"
  "typedBufferRef (addToBuffer ch g) = typedBufferRef g"
  "lettersRef (addToBuffer ch g) = lettersRef g"
  "blendTimeoutsRef (addToBuffer ch g) = blendTimeoutsRef g"
  "lastAutoRef (addToBuffer ch g) = lastAutoRef g"
  "processTimer (addToBuffer ch g) = processTimer g"
  "pending (addToBuffer ch g) = pending g"
  "phaseTouched (addToBuffer ch g) = phaseTouched g"
  "timers (addToBuffer ch g) = timers g"
  "nextTimerId (addToBuffer ch g) = nextTimerId g"
  "now (addToBuffer ch g) = now g"
  "cues (addToBuffer ch g) = cues g"
  by (simp_all add: addToBuffer_def pruneBuffer_def repeatGuard_def Let_def)

lemma pushBlendTimeout_frame [simp]:
  "wordIndex (pushBlendTimeout cb0 d g) = wordIndex g"
  "phase (pushBlendTimeout cb0 d g) = phase g"
  "typedBuffer (pushBlendTimeout cb0 d g) = typedBuffer g"
  "blendHighlightStep (pushBlendTimeout cb0 d g) = blendHighlightStep g"
  "typingCurrentIndex (pushBlendTimeout cb0 d g) = typingCurrentIndex g"
  "announcement (pushBlendTimeout cb0 d g) = announcement g"
  "showImage (pushBlendTimeout cb0 d g) = showImage g"
  "keyBufferRef (pushBlendTimeout cb0 d g) = keyBufferRef g"
  "lastKeyRef (pushBlendTimeout cb0 d g) = lastKeyRef g"
  "phaseRef (pushBlendTimeout cb0 d g) = phaseRef g"
  "typingCurrentIndexRef (pushBlendTimeout cb0 d g) = typingCurrentIndexRef g"
  "typedBufferRef (pushBlendTimeout cb0 d g) = typedBufferRef g"
  "lettersRef (pushBlendTimeout cb0 d g) = lettersRef g"
  "lastAutoRef (pushBlendTimeout cb0 d g) = lastAutoRef g"
  "processTimer (pushBlendTimeout cb0 d g) = processTimer g"
  "pending (pushBlendTimeout cb0 d g) = pending g"
  "phaseTouched (pushBlendTimeout cb0 d g) = phaseTouched g"
  "now (pushBlendTimeout cb0 d g) = now g"
  "cues (pushBlendTimeout cb0 d g) = cues g"
  by (simp_all add: pushBlendTimeout_def setTimeout_def)

lemma processEffect_frame [simp]:
  "wordIndex (processEffect g) = wordIndex g"
  "phase (processEffect g) = phase g"
  "typedBuffer (processEffect g) = typedBuffer g"
  "blendHighlightStep (processEffect g) = blendHighlightStep g"
  "typingCurrentIndex (processEffect g) = typingCurrentIndex g"
  "announcement (processEffect g) = announcement g"
  "showImage (processEffect g) = showImage g"
  "keyBufferRef (processEffect g) = keyBufferRef g"
  "lastKeyRef (processEffect g) = lastKeyRef g"
  "phaseRef (processEffect g) = phaseRef g"
  "typingCurrentIndexRef (processEffect g) = typingCurrentIndexRef g"
  "typedBufferRef (processEffect g) = typedBufferRef g"
  "lettersRef (processEffect g) = lettersRef g"
  "blendTimeoutsRef (processEffect g) = blendTimeoutsRef g"
  "lastAutoRef (processEffect g) = lastAutoRef g"
  "pending (processEffect g) = pending g"
  "phaseTouched (processEffect g) = phaseTouched g"
  "now (processEffect g) = now g"
  "cues (processEffect g) = cues g"
  by (simp_all add: processEffect_def setTimeout_def)

lemma processCleanup_frame [simp]:
  "wordIndex (processCleanup g) = wordIndex g"
  "phase (processCleanup g) = phase g"
  "typedBuffer (processCleanup g) = typedBuffer g"
  "blendHighlightStep (processCleanup g) = blendHighlightStep g"
  "typingCurrentIndex (processCleanup g) = typingCurrentIndex g"
  "announcement (processCleanup g) = announcement g"
  "showImage (processCleanup g) = showImage g"
  "keyBufferRef (processCleanup g) = keyBufferRef g"
  "lastKeyRef (processCleanup g) = lastKeyRef g"
  "phaseRef (processCleanup g) = phaseRef g"
  "typingCurrentIndexRef (processCleanup g) = typingCurrentIndexRef g"
  "typedBufferRef (processCleanup g) = typedBufferRef g"
  "lettersRef (processCleanup g) = lettersRef g"
  "blendTimeoutsRef (processCleanup g) = blendTimeoutsRef g"
  "lastAutoRef (processCleanup g) = lastAutoRef g"
  "processTimer (processCleanup g) = processTimer g"
  "pending (processCleanup g) = pending g"
  "phaseTouched (processCleanup g) = phaseTouched g"
  "nextTimerId (processCleanup g) = nextTimerId g"
  "now (processCleanup g) = now g"
  "cues (processCleanup g) = cues g"
  by (simp_all add: processCleanup_def clearTimeout_def split: option.split)

lemma advanceToNextPhase_frame [simp]:
  "wordIndex (advanceToNextPhase p g) = wordIndex g"
  "phase (advanceToNextPhase p g) = phase g"
  "typedBuffer (advanceToNextPhase p g) = typedBuffer g"
  "blendHighlightStep (advanceToNextPhase p g) = blendHighlightStep g"
  "typingCurrentIndex (advanceToNextPhase p g) = typingCurrentIndex g"
  "announcement (advanceToNextPhase p g) = announcement g"
  "showImage (advanceToNextPhase p g) = showImage g"
  "keyBufferRef (advanceToNextPhase p g) = keyBufferRef g"
  "lastKeyRef (advanceToNextPhase p g) = lastKeyRef g"
  "phaseRef (advanceToNextPhase p g) = phaseRef g"
  "typingCurrentIndexRef (advanceToNextPhase p g) = typingCurrentIndexRef g"
  "typedBufferRef (advanceToNextPhase p g) = typedBufferRef g"
  "lettersRef (advanceToNextPhase p g) = lettersRef g"
  "blendTimeoutsRef (advanceToNextPhase p g) = blendTimeoutsRef g"
  "lastAutoRef (advanceToNextPhase p g) = lastAutoRef g"
  "processTimer (advanceToNextPhase p g) = processTimer g"
  "phaseTouched (advanceToNextPhase p g) = phaseTouched g"
  "timers (advanceToNextPhase p g) = timers g"
  "nextTimerId (advanceToNextPhase p g) = nextTimerId g"
  "now (advanceToNextPhase p g) = now g"
  "cues (advanceToNextPhase p g) = cues g"
  by (simp_all add: advanceToNextPhase_def enqueue_def split: phase.split)

lemma handleCorrectType_frame [simp]:
  "wordIndex (handleCorrectType ch g) = wordIndex g"
  "phase (handleCorrectType ch g) = phase g"
  "typedBuffer (handleCorrectType ch g) = typedBuffer g"
  "blendHighlightStep (handleCorrectType ch g) = blendHighlightStep g"
  "typingCurrentIndex (handleCorrectType ch g) = typingCurrentIndex g"
  "announcement (handleCorrectType ch g) = announcement g"
  "showImage (handleCorrectType ch g) = showImage g"
  "keyBufferRef (handleCorrectType ch g) = keyBufferRef g"
  "lastKeyRef (handleCorrectType ch g) = lastKeyRef g"
  "phaseRef (handleCorrectType ch g) = phaseRef g"
  "typingCurrentIndexRef (handleCorrectType ch g) = typingCurrentIndexRef g"
  "typedBufferRef (handleCorrectType ch g) = typedBufferRef g"
  "lettersRef (handleCorrectType ch g) = lettersRef g"
  "blendTimeoutsRef (handleCorrectType ch g) = blendTimeoutsRef g"
  "lastAutoRef (handleCorrectType ch g) = lastAutoRef g"
  "processTimer (handleCorrectType ch g) = processTimer g"
  "phaseTouched (handleCorrectType ch g) = phaseTouched g"
  "now (handleCorrectType ch g) = now g"
  by (simp_all add: handleCorrectType_def ops_defs Let_def)

lemma handleCorrectLetterClick_frame [simp]:
  "wordIndex (handleCorrectLetterClick p ch g) = wordIndex g"
  "phase (handleCorrectLetterClick p ch g) = phase g"
  "typedBuffer (handleCorrectLetterClick p ch g) = typedBuffer g"
  "blendHighlightStep (handleCorrectLetterClick p ch g) = blendHighlightStep g"
  "typingCurrentIndex (handleCorrectLetterClick p ch g) = typingCurrentIndex g"
  "announcement (handleCorrectLetterClick p ch g) = announcement g"
  "showImage (handleCorrectLetterClick p ch g) = showImage g"
  "keyBufferRef (handleCorrectLetterClick p ch g) = keyBufferRef g"
  "lastKeyRef (handleCorrectLetterClick p ch g) = lastKeyRef g"
  "phaseRef (handleCorrectLetterClick p ch g) = phaseRef g"
  "typingCurrentIndexRef (handleCorrectLetterClick p ch g) = typingCurrentIndexRef g"
  "typedBufferRef (handleCorrectLetterClick p ch g) = typedBufferRef g"
  "lettersRef (handleCorrectLetterClick p ch g) = lettersRef g"
  "blendTimeoutsRef (handleCorrectLetterClick p ch g) = blendTimeoutsRef g"
  "lastAutoRef (handleCorrectLetterClick p ch g) = lastAutoRef g"
  "processTimer (handleCorrectLetterClick p ch g) = processTimer g"
  "phaseTouched (handleCorrectLetterClick p ch g) = phaseTouched g"
  "now (handleCorrectLetterClick p ch g) = now g"
  by (simp_all add: handleCorrectLetterClick_def advanceToNextPhase_def ops_defs Let_def split: phase.split)

lemma resetForNext_frame [simp]:
  "wordIndex (resetForNext g) = wordIndex g"
  "phase (resetForNext g) = phase g"
  "typedBuffer (resetForNext g) = typedBuffer g"
  "blendHighlightStep (resetForNext g) = blendHighlightStep g"
  "typingCurrentIndex (resetForNext g) = typingCurrentIndex g"
  "announcement (resetForNext g) = announcement g"
  "showImage (resetForNext g) = showImage g"
  "phaseRef (resetForNext g) = phaseRef g"
  "typingCurrentIndexRef (resetForNext g) = typingCurrentIndexRef g"
  "typedBufferRef (resetForNext g) = typedBufferRef g"
  "lettersRef (resetForNext g) = lettersRef g"
  "processTimer (resetForNext g) = processTimer g"
  "phaseTouched (resetForNext g) = phaseTouched g"
  "nextTimerId (resetForNext g) = nextTimerId g"
  "now (resetForNext g) = now g"
  "cues (resetForNext g) = cues g"
  by (simp_all add: resetForNext_def ops_defs Let_def)

lemma word_upd [simp]:
  "word (g\<lparr>phase := x1\<rparr>) = word g"
  "word (g\<lparr>typedBuffer := x2\<rparr>) = word g"
  "word (g\<lparr>blendHighlightStep := x3\<rparr>) = word g"
  "word (g\<lparr>typingCurrentIndex := x4\<rparr>) = word g"
  "word (g\<lparr>announcement := x5\<rparr>) = word g"
  "word (g\<lparr>showImage := x6\<rparr>) = word g"
  "word (g\<lparr>keyBufferRef := x7\<rparr>) = word g"
  "word (g\<lparr>lastKeyRef := x8\<rparr>) = word g"
  "word (g\<lparr>phaseRef := x9\<rparr>) = word g"
  "word (g\<lparr>typingCurrentIndexRef := x10\<rparr>) = word g"
  "word (g\<lparr>typedBufferRef := x11\<rparr>) = word g"
  "word (g\<lparr>lettersRef := x12\<rparr>) = word g"
  "word (g\<lparr>blendTimeoutsRef := x13\<rparr>) = word g"
  "word (g\<lparr>lastAutoRef := x14\<rparr>) = word g"
  "word (g\<lparr>processTimer := x15\<rparr>) = word g"
  "word (g\<lparr>pending := x16\<rparr>) = word g"
  "word (g\<lparr>phaseTouched := x17\<rparr>) = word g"
  "word (g\<lparr>timers := x18\<rparr>) = word g"
  "word (g\<lparr>nextTimerId := x19\<rparr>) = word g"
  "word (g\<lparr>now := x20\<rparr>) = word g"
  "word (g\<lparr>cues := x21\<rparr>) = word g"
  by (simp_all add: word_def)

lemma letters_upd [simp]:
  "letters (g\<lparr>phase := x1\<rparr>) = letters g"
  "letters (g\<lparr>typedBuffer := x2\<rparr>) = letters g"
  "letters (g\<lparr>blendHighlightStep := x3\<rparr>) = letters g"
  "letters (g\<lparr>typingCurrentIndex := x4\<rparr>) = letters g"
  "letters (g\<lparr>announcement := x5\<rparr>) = letters g"
  "letters (g\<lparr>showImage := x6\<rparr>) = letters g"
  "letters (g\<lparr>keyBufferRef := x7\<rparr>) = letters g"
  "letters (g\<lparr>lastKeyRef := x8\<rparr>) = letters g"
  "letters (g\<lparr>phaseRef := x9\<rparr>) = letters g"
  "letters (g\<lparr>typingCurrentIndexRef := x10\<rparr>) = letters g"
  "letters (g\<lparr>typedBufferRef := x11\<rparr>) = letters g"
  "letters (g\<lparr>lettersRef := x12\<rparr>) = letters g"
  "letters (g\<lparr>blendTimeoutsRef := x13\<rparr>) = letters g"
  "letters (g\<lparr>lastAutoRef := x14\<rparr>) = letters g"
  "letters (g\<lparr>processTimer := x15\<rparr>) = letters g"
  "letters (g\<lparr>pending := x16\<rparr>) = letters g"
  "letters (g\<lparr>phaseTouched := x17\<rparr>) = letters g"
  "letters (g\<lparr>timers := x18\<rparr>) = letters g"
  "letters (g\<lparr>nextTimerId := x19\<rparr>) = letters g"
  "letters (g\<lparr>now := x20\<rparr>) = letters g"
  "letters (g\<lparr>cues := x21\<rparr>) = letters g"
  by (simp_all add: letters_def)

lemma getExpectedLetter_upd [simp]:
  "getExpectedLetter (g\<lparr>wordIndex := x0\<rparr>) = getExpectedLetter g"
  "getExpectedLetter (g\<lparr>phase := x1\<rparr>) = getExpectedLetter g"
  "getExpectedLetter (g\<lparr>typedBuffer := x2\<rparr>) = getExpectedLetter g"
  "getExpectedLetter (g\<lparr>blendHighlightStep := x3\<rparr>) = getExpectedLetter g"
  "getExpectedLetter (g\<lparr>typingCurrentIndex := x4\<rparr>) = getExpectedLetter g"
  "getExpectedLetter (g\<lparr>announcement := x5\<rparr>) = getExpectedLetter g"
  "getExpectedLetter (g\<lparr>showImage := x6\<rparr>) = getExpectedLetter g"
  "getExpectedLetter (g\<lparr>keyBufferRef := x7\<rparr>) = getExpectedLetter g"
  "getExpectedLetter (g\<lparr>lastKeyRef := x8\<rparr>) = getExpectedLetter g"
  "getExpectedLetter (g\<lparr>typedBufferRef := x11\<rparr>) = getExpectedLetter g"
  "getExpectedLetter (g\<lparr>blendTimeoutsRef := x13\<rparr>) = getExpectedLetter g"
  "getExpectedLetter (g\<lparr>lastAutoRef := x14\<rparr>) = getExpectedLetter g"
  "getExpectedLetter (g\<lparr>processTimer := x15\<rparr>) = getExpectedLetter g"
  "getExpectedLetter (g\<lparr>pending := x16\<rparr>) = getExpectedLetter g"
  "getExpectedLetter (g\<lparr>phaseTouched := x17\<rparr>) = getExpectedLetter g"
  "getExpectedLetter (g\<lparr>timers := x18\<rparr>) = getExpectedLetter g"
  "getExpectedLetter (g\<lparr>nextTimerId := x19\<rparr>) = getExpectedLetter g"
  "getExpectedLetter (g\<lparr>now := x20\<rparr>) = getExpectedLetter g"
  "getExpectedLetter (g\<lparr>cues := x21\<rparr>) = getExpectedLetter g"
  by (simp_all add: getExpectedLetter_def)

lemma autoKey_upd [simp]:
  "autoKey (g\<lparr>typedBuffer := x2\<rparr>) = autoKey g"
  "autoKey (g\<lparr>blendHighlightStep := x3\<rparr>) = autoKey g"
  "autoKey (g\<lparr>typingCurrentIndex := x4\<rparr>) = autoKey g"
  "autoKey (g\<lparr>announcement := x5\<rparr>) = autoKey g"
  "autoKey (g\<lparr>showImage := x6\<rparr>) = autoKey g"
  "autoKey (g\<lparr>keyBufferRef := x7\<rparr>) = autoKey g"
  "autoKey (g\<lparr>lastKeyRef := x8\<rparr>) = autoKey g"
  "autoKey (g\<lparr>phaseRef := x9\<rparr>) = autoKey g"
  "autoKey (g\<lparr>typingCurrentIndexRef := x10\<rparr>) = autoKey g"
  "autoKey (g\<lparr>typedBufferRef := x11\<rparr>) = autoKey g"
  "autoKey (g\<lparr>lettersRef := x12\<rparr>) = autoKey g"
  "autoKey (g\<lparr>blendTimeoutsRef := x13\<rparr>) = autoKey g"
  "autoKey (g\<lparr>lastAutoRef := x14\<rparr>) = autoKey g"
  "autoKey (g\<lparr>processTimer := x15\<rparr>) = autoKey g"
  "autoKey (g\<lparr>pending := x16\<rparr>) = autoKey g"
  "autoKey (g\<lparr>phaseTouched := x17\<rparr>) = autoKey g"
  "autoKey (g\<lparr>timers := x18\<rparr>) = autoKey g"
  "autoKey (g\<lparr>nextTimerId := x19\<rparr>) = autoKey g"
  "autoKey (g\<lparr>now := x20\<rparr>) = autoKey g"
  "autoKey (g\<lparr>cues := x21\<rparr>) = autoKey g"
  by (simp_all add: autoKey_def)

lemma repeatGuard_upd [simp]:
  "repeatGuard c (g\<lparr>wordIndex := x0\<rparr>) = repeatGuard c g"
  "repeatGuard c (g\<lparr>phase := x1\<rparr>) = repeatGuard c g"
  "repeatGuard c (g\<lparr>typedBuffer := x2\<rparr>) = repeatGuard c g"
  "repeatGuard c (g\<lparr>blendHighlightStep := x3\<rparr>) = repeatGuard c g"
  "repeatGuard c (g\<lparr>typingCurrentIndex := x4\<rparr>) = repeatGuard c g"
  "repeatGuard c (g\<lparr>announcement := x5\<rparr>) = repeatGuard c g"
  "repeatGuard c (g\<lparr>showImage := x6\<rparr>) = repeatGuard c g"
  "repeatGuard c (g\<lparr>keyBufferRef := x7\<rparr>) = repeatGuard c g"
  "repeatGuard c (g\<lparr>phaseRef := x9\<rparr>) = repeatGuard c g"
  "repeatGuard c (g\<lparr>typingCurrentIndexRef := x10\<rparr>) = repeatGuard c g"
  "repeatGuard c (g\<lparr>typedBufferRef := x11\<rparr>) = repeatGuard c g"
  "repeatGuard c (g\<lparr>lettersRef := x12\<rparr>) = repeatGuard c g"
  "repeatGuard c (g\<lparr>blendTimeoutsRef := x13\<rparr>) = repeatGuard c g"
  "repeatGuard c (g\<lparr>lastAutoRef := x14\<rparr>) = repeatGuard c g"
  "repeatGuard c (g\<lparr>processTimer := x15\<rparr>) = repeatGuard c g"
  "repeatGuard c (g\<lparr>pending := x16\<rparr>) = repeatGuard c g"
  "repeatGuard c (g\<lparr>phaseTouched := x17\<rparr>) = repeatGuard c g"
  "repeatGuard c (g\<lparr>timers := x18\<rparr>) = repeatGuard c g"
  "repeatGuard c (g\<lparr>nextTimerId := x19\<rparr>) = repeatGuard c g"
  "repeatGuard c (g\<lparr>cues := x21\<rparr>) = repeatGuard c g"
  by (simp_all add: repeatGuard_def)

lemma word_ops [simp]:
  "word (setTimeout cb0 d g) = word g"
  "word (clearTimeout i g) = word g"
  "word (enqueue us g) = word g"
  "word (playCue q g) = word g"
  "word (playSoundEffect k g) = word g"
  "word (clearBlendTimeouts g) = word g"
  "word (pruneBuffer g) = word g"
  "word (addToBuffer ch g) = word g"
  "word (pushBlendTimeout cb0 d g) = word g"
  "word (processEffect g) = word g"
  "word (processCleanup g) = word g"
  "word (advanceToNextPhase p g) = word g"
  "word (handleCorrectType ch g) = word g"
  "word (handleCorrectLetterClick p ch g) = word g"
  "word (resetForNext g) = word g"
  by (simp_all add: word_def)

lemma letters_ops [simp]:
  "letters (setTimeout cb0 d g) = letters g"
  "letters (clearTimeout i g) = letters g"
  "letters (enqueue us g) = letters g"
  "letters (playCue q g) = letters g"
  "letters (playSoundEffect k g) = letters g"
  "letters (clearBlendTimeouts g) = letters g"
  "letters (pruneBuffer g) = letters g"
  "letters (addToBuffer ch g) = letters g"
  "letters (pushBlendTimeout cb0 d g) = letters g"
  "letters (processEffect g) = letters g"
  "letters (processCleanup g) = letters g"
  "letters (advanceToNextPhase p g) = letters g"
  "letters (handleCorrectType ch g) = letters g"
  "letters (handleCorrectLetterClick p ch g) = letters g"
  "letters (resetForNext g) = letters g"
  by (simp_all add: letters_def)

lemma getExpectedLetter_ops [simp]:
  "getExpectedLetter (setTimeout cb0 d g) = getExpectedLetter g"
  "getExpectedLetter (clearTimeout i g) = getExpectedLetter g"
  "getExpectedLetter (enqueue us g) = getExpectedLetter g"
  "getExpectedLetter (playCue q g) = getExpectedLetter g"
  "getExpectedLetter (playSoundEffect k g) = getExpectedLetter g"
  "getExpectedLetter (clearBlendTimeouts g) = getExpectedLetter g"
  "getExpectedLetter (pruneBuffer g) = getExpectedLetter g"
  "getExpectedLetter (addToBuffer ch g) = getExpectedLetter g"
  "getExpectedLetter (pushBlendTimeout cb0 d g) = getExpectedLetter g"
  "getExpectedLetter (processEffect g) = getExpectedLetter g"
  "getExpectedLetter (processCleanup g) = getExpectedLetter g"
  "getExpectedLetter (advanceToNextPhase p g) = getExpectedLetter g"
  "getExpectedLetter (handleCorrectType ch g) = getExpectedLetter g"
  "getExpectedLetter (handleCorrectLetterClick p ch g) = getExpectedLetter g"
  "getExpectedLetter (resetForNext g) = getExpectedLetter g"
  by (simp_all add: getExpectedLetter_def)

lemma autoKey_ops [simp]:
  "autoKey (setTimeout cb0 d g) = autoKey g"
  "autoKey (clearTimeout i g) = autoKey g"
  "autoKey (enqueue us g) = autoKey g"
  "autoKey (playCue q g) = autoKey g"
  "autoKey (playSoundEffect k g) = autoKey g"
  "autoKey (clearBlendTimeouts g) = autoKey g"
  "autoKey (pruneBuffer g) = autoKey g"
  "autoKey (addToBuffer ch g) = autoKey g"
  "autoKey (pushBlendTimeout cb0 d g) = autoKey g"
  "autoKey (processEffect g) = autoKey g"
  "autoKey (processCleanup g) = autoKey g"
  "autoKey (advanceToNextPhase p g) = autoKey g"
  "autoKey (handleCorrectType ch g) = autoKey g"
  "autoKey (handleCorrectLetterClick p ch g) = autoKey g"
  "autoKey (resetForNext g) = autoKey g"
  by (simp_all add: autoKey_def)

lemma cues_handleCorrectLetterClick:
  "cues (handleCorrectLetterClick p ch g) = cues g @ [SoundEffect ''correct'']"
  by (simp add: handleCorrectLetterClick_def advanceToNextPhase_def ops_defs Let_def
      split: phase.splits)

lemma cues_handleCorrectType:
  "cues (handleCorrectType ch g) = cues g @ [SoundEffect ''correct'']"
  by (simp add: handleCorrectType_def ops_defs Let_def)

lemma set_splice1: "set (splice1 i xs) \<subseteq> set xs"
  by (auto simp: splice1_def dest: in_set_takeD in_set_dropD)

lemma processBuffer_no_expected:
  "getExpectedLetter (pruneBuffer g) = None \<Longrightarrow> processBuffer p g = pruneBuffer g"
  by (subst processBuffer.simps) (simp add: Let_def)
lemma fold_push_frame:
  assumes "\<And>cb0 d g. F (pushBlendTimeout cb0 d g) = F g"
  shows "F (fold (\<lambda>i. pushBlendTimeout (c i) (d i)) xs g) = F g"
  by (induction xs arbitrary: g) (simp_all add: assms)

lemmas fold_push_frames [simp] =
  fold_push_frame [where F = wordIndex, OF pushBlendTimeout_frame(1)]
  fold_push_frame [where F = phase, OF pushBlendTimeout_frame(2)]
  fold_push_frame [where F = typedBuffer, OF pushBlendTimeout_frame(3)]
  fold_push_frame [where F = blendHighlightStep, OF pushBlendTimeout_frame(4)]
  fold_push_frame [where F = typingCurrentIndex, OF pushBlendTimeout_frame(5)]
  fold_push_frame [where F = announcement, OF pushBlendTimeout_frame(6)]
  fold_push_frame [where F = showImage, OF pushBlendTimeout_frame(7)]
  fold_push_frame [where F = keyBufferRef, OF pushBlendTimeout_frame(8)]
  fold_push_frame [where F = lastKeyRef, OF pushBlendTimeout_frame(9)]
  fold_push_frame [where F = phaseRef, OF pushBlendTimeout_frame(10)]
  fold_push_frame [where F = typingCurrentIndexRef, OF pushBlendTimeout_frame(11)]
  fold_push_frame [where F = typedBufferRef, OF pushBlendTimeout_frame(12)]
  fold_push_frame [where F = lettersRef, OF pushBlendTimeout_frame(13)]
  fold_push_frame [where F = lastAutoRef, OF pushBlendTimeout_frame(14)]
  fold_push_frame [where F = processTimer, OF pushBlendTimeout_frame(15)]
  fold_push_frame [where F = pending, OF pushBlendTimeout_frame(16)]
  fold_push_frame [where F = phaseTouched, OF pushBlendTimeout_frame(17)]
  fold_push_frame [where F = now, OF pushBlendTimeout_frame(18)]
  fold_push_frame [where F = cues, OF pushBlendTimeout_frame(19)]

lemma autoEffect_frame [simp]:
  "wordIndex (autoEffect g) = wordIndex g"
  "phase (autoEffect g) = phase g"
  "typedBuffer (autoEffect g) = typedBuffer g"
  "blendHighlightStep (autoEffect g) = blendHighlightStep g"
  "typingCurrentIndex (autoEffect g) = typingCurrentIndex g"
  "announcement (autoEffect g) = announcement g"
  "showImage (autoEffect g) = showImage g"
  "keyBufferRef (autoEffect g) = keyBufferRef g"
  "lastKeyRef (autoEffect g) = lastKeyRef g"
  "phaseRef (autoEffect g) = phaseRef g"
  "typingCurrentIndexRef (autoEffect g) = typingCurrentIndexRef g"
  "typedBufferRef (autoEffect g) = typedBufferRef g"
  "lettersRef (autoEffect g) = lettersRef g"
  "processTimer (autoEffect g) = processTimer g"
  "phaseTouched (autoEffect g) = phaseTouched g"
  "now (autoEffect g) = now g"
  by (simp_all add: autoEffect_def Let_def split: phase.split)

lemma cleanups_frame [simp]:
  "wordIndex (cleanups a b g) = wordIndex g"
  "phase (cleanups a b g) = phase g"
  "typedBuffer (cleanups a b g) = typedBuffer g"
  "blendHighlightStep (cleanups a b g) = blendHighlightStep g"
  "typingCurrentIndex (cleanups a b g) = typingCurrentIndex g"
  "announcement (cleanups a b g) = announcement g"
  "showImage (cleanups a b g) = showImage g"
  "keyBufferRef (cleanups a b g) = keyBufferRef g"
  "lastKeyRef (cleanups a b g) = lastKeyRef g"
  "now (cleanups a b g) = now g"
  by (simp_all add: cleanups_def Let_def)

lemma bodies_frame [simp]:
  "wordIndex (bodies a b g) = wordIndex g"
  "phase (bodies a b g) = phase g"
  "typedBuffer (bodies a b g) = typedBuffer g"
  "blendHighlightStep (bodies a b g) = blendHighlightStep g"
  "typingCurrentIndex (bodies a b g) = typingCurrentIndex g"
  "announcement (bodies a b g) = announcement g"
  "showImage (bodies a b g) = showImage g"
  "keyBufferRef (bodies a b g) = keyBufferRef g"
  "lastKeyRef (bodies a b g) = lastKeyRef g"
  "now (bodies a b g) = now g"
  by (simp_all add: bodies_def Let_def)

lemma mirrors_frame [simp]:
  "wordIndex (mirrors a b c d g) = wordIndex g"
  "phase (mirrors a b c d g) = phase g"
  "typedBuffer (mirrors a b c d g) = typedBuffer g"
  "blendHighlightStep (mirrors a b c d g) = blendHighlightStep g"
  "typingCurrentIndex (mirrors a b c d g) = typingCurrentIndex g"
  "announcement (mirrors a b c d g) = announcement g"
  "showImage (mirrors a b c d g) = showImage g"
  "keyBufferRef (mirrors a b c d g) = keyBufferRef g"
  "lastKeyRef (mirrors a b c d g) = lastKeyRef g"
  "now (mirrors a b c d g) = now g"
  by (simp_all add: mirrors_def Let_def)

lemma runEffects_frame [simp]:
  "wordIndex (runEffects g0 g) = wordIndex g"
  "phase (runEffects g0 g) = phase g"
  "typedBuffer (runEffects g0 g) = typedBuffer g"
  "blendHighlightStep (runEffects g0 g) = blendHighlightStep g"
  "typingCurrentIndex (runEffects g0 g) = typingCurrentIndex g"
  "announcement (runEffects g0 g) = announcement g"
  "showImage (runEffects g0 g) = showImage g"
  "keyBufferRef (runEffects g0 g) = keyBufferRef g"
  "lastKeyRef (runEffects g0 g) = lastKeyRef g"
  "now (runEffects g0 g) = now g"
  by (simp_all add: runEffects_def Let_def)

subsection \<open>Small facts\<close>


lemma toUpperCase_words [simp]:
  "toUpperCase ''D'' = ''D''" "toUpperCase ''DO'' = ''DO''" "toUpperCase ''DOG'' = ''DOG''"
  "toUpperCase ''C'' = ''C''" "toUpperCase ''CA'' = ''CA''" "toUpperCase ''CAT'' = ''CAT''"
  by (simp_all add: toUpperCase_def toUpperChar_def)

lemma letters_cases:
  "wordIndex s < length WORDS \<Longrightarrow> letters s = ''DOG'' \<or> letters s = ''CAT''"
  by (auto simp: letters_def word_def WORDS_def less_Suc_eq)



lemma getExpectedLetter_none:
  assumes "isBlend (phaseRef g)
           \<or> (\<exists>k. phaseRef g = type_prefix k \<and> k \<le> typingCurrentIndexRef g)"
  shows "getExpectedLetter g = None"
  using assms by (auto simp: getExpectedLetter_def isBlend_def at_def split: phase.splits)





subsection \<open>The drain pass ends\<close>

text \<open>
  Claim C9. Every drain pass over the type-ahead buffer terminates: an invocation of
  \<open>processBuffer\<close> either stops or removes one entry and recurses, and nothing is added
  during the pass. \<open>processBuffer\<close> is a total function (its termination is proved above
  on the length of the key buffer). Each consumption plays the "correct" sound once, so the
  number of consumptions of a pass is the growth of that count: remaining entries plus
  consumptions never exceed the entries present at the start, and every remaining entry
  was there at the start.
\<close>

theorem processBuffer_consumes_at_most_the_buffer:
  "length (keyBufferRef (processBuffer p g))
     + count_list (cues (processBuffer p g)) (SoundEffect ''correct'')
     \<le> length (keyBufferRef g) + count_list (cues g) (SoundEffect ''correct'')
   \<and> set (keyBufferRef (processBuffer p g)) \<subseteq> set (keyBufferRef g)"
proof (induction p g rule: processBuffer.induct)
  case (1 p g0)
  define g where "g = pruneBuffer g0"
  have cg: "cues g = cues g0" by (simp add: g_def pruneBuffer_def)
  have lg: "length (keyBufferRef g) \<le> length (keyBufferRef g0)"
    by (simp add: g_def length_pruneBuffer)
  have sg: "set (keyBufferRef g) \<subseteq> set (keyBufferRef g0)"
    by (auto simp: g_def pruneBuffer_def)
  show ?case
  proof (cases "getExpectedLetter g")
    case None
    then have "processBuffer p g0 = g"
      by (subst processBuffer.simps) (simp add: g_def Let_def)
    then show ?thesis using cg lg sg by simp
  next
    case (Some expected)
    show ?thesis
    proof (cases "findIndex (\<lambda>ev. ev_key ev = expected) (keyBufferRef g)")
      case None
      then have "processBuffer p g0 = g"
        using Some by (subst processBuffer.simps) (simp add: g_def Let_def)
      then show ?thesis using cg lg sg by simp
    next
      case (Some i)
      define h where "h = g\<lparr>keyBufferRef := splice1 i (keyBufferRef g)\<rparr>"
      define g2 where "g2 = (case phaseRef g of
                    click_letter n \<Rightarrow> handleCorrectLetterClick p expected h
                  | type_prefix k \<Rightarrow> handleCorrectType expected h
                  | blend_prefix k \<Rightarrow> h)"
      have eq: "processBuffer p g0 = processBuffer p g2"
        using Some \<open>getExpectedLetter g = Some expected\<close>
        unfolding g2_def h_def g_def
        by (subst processBuffer.simps) (simp add: Let_def)
      have IH: "length (keyBufferRef (processBuffer p g2))
           + count_list (cues (processBuffer p g2)) (SoundEffect ''correct'')
         \<le> length (keyBufferRef g2) + count_list (cues g2) (SoundEffect ''correct'')
        \<and> set (keyBufferRef (processBuffer p g2)) \<subseteq> set (keyBufferRef g2)"
        using "1.IH" [OF g_def \<open>getExpectedLetter g = Some expected\<close> Some]
        unfolding g2_def h_def by simp
      have i: "i < length (keyBufferRef g)" using Some by (rule findIndex_less)
      have b2: "keyBufferRef g2 = splice1 i (keyBufferRef g)"
        by (simp add: g2_def h_def split: phase.split)
      have c2: "count_list (cues g2) (SoundEffect ''correct'')
                  \<le> Suc (count_list (cues g) (SoundEffect ''correct''))"
        by (simp add: g2_def h_def cues_handleCorrectLetterClick cues_handleCorrectType
            split: phase.split)
      have "length (keyBufferRef g2) < length (keyBufferRef g)"
        using b2 length_splice1 [OF i] by simp
      moreover have "set (keyBufferRef g2) \<subseteq> set (keyBufferRef g)"
        using b2 set_splice1 [of i "keyBufferRef g"] by simp
      ultimately show ?thesis using IH c2 cg lg sg eq by auto
    qed
  qed
qed

subsection \<open>No expected letter, no progress\<close>

text \<open>
  Claim C10, as stated: whenever the phase is BlendPrefix, or TypePrefix(k) with the typing
  index at or past k, \<open>getExpectedLetter\<close> returns null and both the key handler and the
  drain pass leave all engine state unchanged. The drain pass does change the state: it
  calls \<open>pruneBuffer\<close> before it looks at the expected letter, so an expired entry leaves
  the key buffer.
\<close>

theorem drain_pass_in_blend_prunes:
  "isBlend (phaseRef staleBlend) \<and> processBuffer (blend_prefix 2) staleBlend \<noteq> staleBlend"
proof -
  have "keyBufferRef (processBuffer (blend_prefix 2) staleBlend) = []"
    by (subst processBuffer.simps)
       (simp add: staleBlend_def initialRender_def pruneBuffer_def getExpectedLetter_def
          BUFFER_ITEM_TTL_MS_def Let_def)
  moreover have "keyBufferRef staleBlend \<noteq> []"
    by (simp add: staleBlend_def)
  ultimately show ?thesis
    by (auto simp: staleBlend_def isBlend_def)
qed

text \<open>
  Claim C10, amended: in those states \<open>getExpectedLetter\<close> returns null (no read out of
  range), the key handler leaves the whole state unchanged, and the drain pass changes
  nothing but the key buffer, from which it removes the entries older than 3000 ms: no key
  is consumed, nothing is queued, played or scheduled.
\<close>

theorem no_expected_letter_no_progress:
  assumes "isBlend (phaseRef g)
           \<or> (\<exists>k. phaseRef g = type_prefix k \<and> k \<le> typingCurrentIndexRef g)"
  shows "getExpectedLetter g = None \<and> onKey key g = g \<and>
         processBuffer p g =
           g\<lparr>keyBufferRef :=
               filter (\<lambda>ev. int (now g) - int (ev_t ev) < 3000) (keyBufferRef g)\<rparr>"
proof -
  have n: "getExpectedLetter g = None" using assms by (rule getExpectedLetter_none)
  have "onKey key g = g" using n by (simp add: onKey_def Let_def)
  moreover have "processBuffer p g = pruneBuffer g"
    using n by (simp add: processBuffer_no_expected)
  ultimately show ?thesis using n by (simp add: pruneBuffer_def BUFFER_ITEM_TTL_MS_def)
qed

theorem no_expected_letter_no_progress_witness:
  "isBlend (phaseRef staleBlend) \<and> getExpectedLetter staleBlend = None \<and>
   onKey ''o'' staleBlend = staleBlend \<and>
   keyBufferRef (processBuffer (blend_prefix 2) staleBlend) = []"
proof -
  have b: "isBlend (phaseRef staleBlend)" by (simp add: staleBlend_def isBlend_def)
  then have h: "isBlend (phaseRef staleBlend) \<or>
      (\<exists>k. phaseRef staleBlend = type_prefix k \<and> k \<le> typingCurrentIndexRef staleBlend)"
    by simp
  show ?thesis
    using b no_expected_letter_no_progress [OF h, of "''o''" "blend_prefix 2"]
    by (simp add: staleBlend_def initialRender_def)
qed

subsection \<open>A wrong key\<close>

lemma commit_announcement:
  assumes "pending g = []"
  shows "commit (enqueue [SetAnnouncement s] g) =
           (enqueue [SetAnnouncement s] g)
             \<lparr>pending := [], phaseTouched := False, announcement := s\<rparr>"
proof -
  define h where "h = enqueue [SetAnnouncement s] g"
  have p: "pending h = [SetAnnouncement s]"
    using assms by (simp add: h_def enqueue_def)
  define f where "f = flush (pending h) (h\<lparr>pending := [], phaseTouched := False\<rparr>)"
  have f: "f = h\<lparr>pending := [], phaseTouched := False, announcement := s\<rparr>"
    by (simp add: f_def p)
  have "pending h \<noteq> []" by (simp add: p)
  then have "renderRound h = runEffects h f"
    unfolding renderRound_def f_def by simp
  also have "\<dots> = f"
    by (simp add: runEffects_def Let_def cleanups_def mirrors_def bodies_def f)
  finally have r: "renderRound h = f" .
  have "commit h = f"
    by (simp add: commit_def r) (simp add: renderRound_def f)
  then show ?thesis unfolding f h_def .
qed

text \<open>
  Claim C6. In an interactive phase (there is an expected letter), a submitted key (a
  letter A to Z once upper-cased) that is not the expected letter leaves the phase, the
  typing index and the typed buffer unchanged, plays the "wrong" sound exactly once and
  sets the status to "Try again". The status is transient: the handler schedules one
  timer, due 1000 ms later, and when that timer fires the status is empty again, with the
  phase, the typing index, the typed buffer and the sounds as they were. The state \<open>g\<close>
  is any state with no update queued; the key is handled by \<open>onKey\<close> and the result
  rendered.
\<close>

theorem wrong_key_keeps_progress:
  assumes "toUpperCase key \<in> set LETTERS" and "getExpectedLetter g = Some e"
    and "toUpperCase key \<noteq> [e]" and "pending g = []"
  shows "phase (commit (onKey key g)) = phase g
       \<and> typingCurrentIndex (commit (onKey key g)) = typingCurrentIndex g
       \<and> typedBuffer (commit (onKey key g)) = typedBuffer g
       \<and> cues (commit (onKey key g)) = cues g @ [SoundEffect ''wrong'']
       \<and> announcement (commit (onKey key g)) = ''Try again''
       \<and> timers (commit (onKey key g)) =
           timers g @ [\<lparr>tid = nextTimerId g, due = now g + 1000, cb = CbClearAnnouncement\<rparr>]
       \<and> announcement (fire \<lparr>tid = nextTimerId g, due = now g + 1000, cb = CbClearAnnouncement\<rparr>
            (commit (onKey key g))) = ''''
       \<and> phase (fire \<lparr>tid = nextTimerId g, due = now g + 1000, cb = CbClearAnnouncement\<rparr>
            (commit (onKey key g))) = phase g
       \<and> typingCurrentIndex
            (fire \<lparr>tid = nextTimerId g, due = now g + 1000, cb = CbClearAnnouncement\<rparr>
              (commit (onKey key g))) = typingCurrentIndex g
       \<and> typedBuffer (fire \<lparr>tid = nextTimerId g, due = now g + 1000, cb = CbClearAnnouncement\<rparr>
            (commit (onKey key g))) = typedBuffer g
       \<and> cues (fire \<lparr>tid = nextTimerId g, due = now g + 1000, cb = CbClearAnnouncement\<rparr>
            (commit (onKey key g))) = cues g @ [SoundEffect ''wrong'']"
proof -
  have nb: "\<not> isBlend (phaseRef g)"
    using assms(2) by (auto simp: getExpectedLetter_def isBlend_def split: phase.splits)
  define w where "w = setTimeout CbClearAnnouncement 1000
       (enqueue [SetAnnouncement ''Try again''] (playSoundEffect ''wrong'' g))"
  define h where "h = addToBuffer (hd (toUpperCase key)) w"
  have ok: "onKey key g = h"
    using assms nb by (simp add: onKey_def h_def w_def Let_def)
  have ph: "pending h = [SetAnnouncement ''Try again'']"
    using assms(4) by (simp add: h_def w_def enqueue_def)
  define f where "f = flush (pending h) (h\<lparr>pending := [], phaseTouched := False\<rparr>)"
  have f: "f = h\<lparr>pending := [], phaseTouched := False, announcement := ''Try again''\<rparr>"
    by (simp add: f_def ph)
  have "pending h \<noteq> []" by (simp add: ph)
  then have "renderRound h = runEffects h f"
    unfolding renderRound_def f_def by simp
  also have "\<dots> = f"
    by (simp add: runEffects_def Let_def cleanups_def mirrors_def bodies_def f)
  finally have r: "renderRound h = f" .
  have c: "commit h = f"
    by (simp add: commit_def r) (simp add: renderRound_def f)
  define tm where "tm = \<lparr>tid = nextTimerId g, due = now g + 1000, cb = CbClearAnnouncement\<rparr>"
  have 1: "phase f = phase g" "typingCurrentIndex f = typingCurrentIndex g"
    "typedBuffer f = typedBuffer g" "cues f = cues g @ [SoundEffect ''wrong'']"
    "announcement f = ''Try again''" "pending f = []"
    by (simp_all add: f h_def w_def playSoundEffect_def playCue_def)
  have tw: "timers w = timers g @ [tm]"
    by (simp add: w_def tm_def setTimeout_def)
  have tf: "timers f = timers g @ [tm]"
    by (simp add: f h_def tw)
  define f' where "f' = f\<lparr>timers := filter (\<lambda>x. tid x \<noteq> tid tm) (timers f),
                          now := max (now f) (due tm)\<rparr>"
  have pf': "pending f' = []" by (simp add: f'_def 1)
  have fi: "fire tm f = (enqueue [SetAnnouncement ''''] f')
       \<lparr>pending := [], phaseTouched := False, announcement := ''''\<rparr>"
    unfolding fire_def f'_def [symmetric]
    using commit_announcement [OF pf', of "''''"] by (simp add: tm_def)
  have 2: "phase f' = phase g" "typingCurrentIndex f' = typingCurrentIndex g"
    "typedBuffer f' = typedBuffer g" "cues f' = cues g @ [SoundEffect ''wrong'']"
    by (simp_all add: f'_def 1)
  show ?thesis
    unfolding ok c tm_def [symmetric] by (simp add: 1 2 tf fi)
qed

theorem wrong_key_keeps_progress_witness:
  "toUpperCase ''x'' \<in> set LETTERS \<and> getExpectedLetter typingEntry = Some CHR ''D''
   \<and> phase (commit (onKey ''x'' typingEntry)) = type_prefix 2
   \<and> typingCurrentIndex (commit (onKey ''x'' typingEntry)) = 0
   \<and> typedBuffer (commit (onKey ''x'' typingEntry)) = []
   \<and> cues (commit (onKey ''x'' typingEntry)) = cues typingEntry @ [SoundEffect ''wrong'']
   \<and> announcement (commit (onKey ''x'' typingEntry)) = ''Try again''
   \<and> timers (commit (onKey ''x'' typingEntry)) =
        [\<lparr>tid = 13, due = 3200, cb = CbClearAnnouncement\<rparr>]
   \<and> announcement (fire \<lparr>tid = 13, due = 3200, cb = CbClearAnnouncement\<rparr>
        (commit (onKey ''x'' typingEntry))) = ''''"
proof -
  have a: "toUpperCase ''x'' \<in> set LETTERS"
    by (simp add: toUpperCase_def toUpperChar_def LETTERS_def)
  have b: "getExpectedLetter typingEntry = Some CHR ''D''"
    by (simp add: getExpectedLetter_def typingEntry_def at_def)
  have c: "toUpperCase ''x'' \<noteq> [CHR ''D'']"
    by (simp add: toUpperCase_def toUpperChar_def)
  have d: "pending typingEntry = []" by (simp add: typingEntry_def)
  have e: "nextTimerId typingEntry = 13" "now typingEntry + 1000 = 3200"
    "timers typingEntry = []" "phase typingEntry = type_prefix 2"
    "typingCurrentIndex typingEntry = 0" "typedBuffer typingEntry = []"
    by (simp_all add: typingEntry_def)
  show ?thesis
    using wrong_key_keeps_progress [OF a b c d] a b unfolding e by simp
qed

subsection \<open>Typing a prefix\<close>










lemma typingEntry_reached:
  "run 50 [KeyDown ''o'' 0, KeyDown ''d'' 100, Wait 2200] mount = Some typingEntry"
  by code_simp


subsection \<open>The same two properties in the older versions\<close>

lemma wrong_key_delayed_version:
  assumes "phase h = type_prefix k"
    and "at (toUpperCase (take k (letters h))) (typingCurrentIndex h) \<noteq> Some (toUpperChar c)"
  shows "handleType_delayed c h = wrongOutcome []"
    and "count_list (out_cues (handleType_delayed c h)) (SoundEffect ''wrong'') = 1"
    and "phase (rendered (handleType_delayed c h) h) = phase h"
    and "typingCurrentIndex (rendered (handleType_delayed c h) h) = typingCurrentIndex h"
    and "typedBuffer (rendered (handleType_delayed c h) h) = typedBuffer h"
proof -
  show w: "handleType_delayed c h = wrongOutcome []"
    using assms by (auto simp: handleType_delayed_def Let_def)
  show "count_list (out_cues (handleType_delayed c h)) (SoundEffect ''wrong'') = 1"
    "phase (rendered (handleType_delayed c h) h) = phase h"
    "typingCurrentIndex (rendered (handleType_delayed c h) h) = typingCurrentIndex h"
    "typedBuffer (rendered (handleType_delayed c h) h) = typedBuffer h"
    by (simp_all add: w wrongOutcome_def rendered_def)
qed

lemma wrong_click_delayed_version:
  assumes "phase h = click_letter i" and "at (letters h) i \<noteq> Some c"
  shows "handleLetterClick_delayed c h = wrongOutcome [LetterSound (at (letters h) i)]"
    and "count_list (out_cues (handleLetterClick_delayed c h)) (SoundEffect ''wrong'') = 1"
    and "phase (rendered (handleLetterClick_delayed c h) h) = phase h"
    and "typedBuffer (rendered (handleLetterClick_delayed c h) h) = typedBuffer h"
proof -
  show w: "handleLetterClick_delayed c h = wrongOutcome [LetterSound (at (letters h) i)]"
    using assms by (auto simp: handleLetterClick_delayed_def Let_def)
  show "count_list (out_cues (handleLetterClick_delayed c h)) (SoundEffect ''wrong'') = 1"
    "phase (rendered (handleLetterClick_delayed c h) h) = phase h"
    "typedBuffer (rendered (handleLetterClick_delayed c h) h) = typedBuffer h"
    by (simp_all add: w wrongOutcome_def rendered_def)
qed

lemma strict_typing_two:
  assumes "phase s = type_prefix 2" and "typedBuffer s = []" and "wordIndex s < length WORDS"
  shows "out_updates (handleType_strict (letters s ! 1)
            (pressKeys_strict (take 1 (letters s)) s))
         = [SetTypedBuffer (take 2 (letters s)), SetPhase (click_letter 2), SetTypedBuffer [] ]"
    and "phase (pressKeys_strict (take 2 (letters s)) s) = click_letter 2"
    and "typedBuffer (pressKeys_strict (take 2 (letters s)) s) = []"
    and "wordIndex (pressKeys_strict (take 2 (letters s)) s) = wordIndex s"
proof -
  define s1 where "s1 = pressKeys_strict (take 1 (letters s)) s"
  have l: "letters s = ''DOG'' \<or> letters s = ''CAT''"
    using assms(3) by (rule letters_cases)
  have s1: "s1 = s\<lparr>pending := [], typedBuffer := take 1 (letters s)\<rparr>"
    using l assms(1,2)
    by (auto simp: s1_def pressKeys_strict_def rendered_def handleType_strict_def
        startsWith_def Let_def)
  have f1: "phase s1 = type_prefix 2" "letters s1 = letters s"
      "typedBuffer s1 = take 1 (letters s)"
    using assms(1) by (simp_all add: s1 letters_def)
  have o: "handleType_strict (letters s ! 1) s1
     = \<lparr>out_cues = [Feedback ''success''],
        out_updates = [SetTypedBuffer (take 2 (letters s)), SetPhase (click_letter 2),
                       SetTypedBuffer [] ],
        out_timers = []\<rparr>"
    using l by (auto simp: handleType_strict_def f1 startsWith_def Let_def)
  show "out_updates (handleType_strict (letters s ! 1)
            (pressKeys_strict (take 1 (letters s)) s))
         = [SetTypedBuffer (take 2 (letters s)), SetPhase (click_letter 2), SetTypedBuffer [] ]"
    using o unfolding s1_def by simp
  have t: "take 2 (letters s) = take 1 (letters s) @ [letters s ! 1]"
    using l by auto
  have p: "pressKeys_strict (take 2 (letters s)) s
         = rendered (handleType_strict (letters s ! 1) s1) s1"
    unfolding s1_def pressKeys_strict_def t by simp
  show "phase (pressKeys_strict (take 2 (letters s)) s) = click_letter 2"
    and "typedBuffer (pressKeys_strict (take 2 (letters s)) s) = []"
    and "wordIndex (pressKeys_strict (take 2 (letters s)) s) = wordIndex s"
    unfolding p o rendered_def by (simp_all add: s1)
qed

lemma strict_typing_three:
  assumes "phase s = type_prefix 3" and "typedBuffer s = []" and "wordIndex s < length WORDS"
  shows "handleType_strict (letters s ! 2) (pressKeys_strict (take 2 (letters s)) s)
         = \<lparr>out_cues = [Feedback ''success''],
            out_updates = [SetTypedBuffer (take 3 (letters s))],
            out_timers = [(350, DelayedResetForNext)]\<rparr>"
    and "typedBuffer (pressKeys_strict (take 3 (letters s)) s) = take 3 (letters s)"
    and "phase (pressKeys_strict (take 3 (letters s)) s) = type_prefix 3"
    and "phase (applyPending (runDelayed DelayedResetForNext
            (pressKeys_strict (take 3 (letters s)) s))) = click_letter 0"
    and "wordIndex (applyPending (runDelayed DelayedResetForNext
            (pressKeys_strict (take 3 (letters s)) s))) = (wordIndex s + 1) mod length WORDS"
proof -
  define s2 where "s2 = pressKeys_strict (take 2 (letters s)) s"
  have l: "letters s = ''DOG'' \<or> letters s = ''CAT''"
    using assms(3) by (rule letters_cases)
  have s2: "s2 = s\<lparr>pending := [], typedBuffer := take 2 (letters s)\<rparr>"
    using l assms(1,2)
    by (auto simp: s2_def pressKeys_strict_def rendered_def handleType_strict_def
        startsWith_def Let_def)
  have f2: "phase s2 = type_prefix 3" "letters s2 = letters s"
      "typedBuffer s2 = take 2 (letters s)"
    using assms(1) by (simp_all add: s2 letters_def)
  have o: "handleType_strict (letters s ! 2) s2
     = \<lparr>out_cues = [Feedback ''success''],
        out_updates = [SetTypedBuffer (take 3 (letters s))],
        out_timers = [(350, DelayedResetForNext)]\<rparr>"
    using l by (auto simp: handleType_strict_def f2 startsWith_def Let_def)
  show "handleType_strict (letters s ! 2) (pressKeys_strict (take 2 (letters s)) s)
         = \<lparr>out_cues = [Feedback ''success''],
            out_updates = [SetTypedBuffer (take 3 (letters s))],
            out_timers = [(350, DelayedResetForNext)]\<rparr>"
    using o unfolding s2_def by simp
  have t: "take 3 (letters s) = take 2 (letters s) @ [letters s ! 2]"
    using l by auto
  have p: "pressKeys_strict (take 3 (letters s)) s
         = rendered (handleType_strict (letters s ! 2) s2) s2"
    unfolding s2_def pressKeys_strict_def t by simp
  have s3: "pressKeys_strict (take 3 (letters s)) s
         = s\<lparr>pending := [], typedBuffer := take 3 (letters s)\<rparr>"
    unfolding p o rendered_def by (simp add: s2)
  show "typedBuffer (pressKeys_strict (take 3 (letters s)) s) = take 3 (letters s)"
    and "phase (pressKeys_strict (take 3 (letters s)) s) = type_prefix 3"
    using assms(1) by (simp_all add: s3)
  show "phase (applyPending (runDelayed DelayedResetForNext
            (pressKeys_strict (take 3 (letters s)) s))) = click_letter 0"
    and "wordIndex (applyPending (runDelayed DelayedResetForNext
            (pressKeys_strict (take 3 (letters s)) s))) = (wordIndex s + 1) mod length WORDS"
    by (simp_all add: s3 applyPending_def resetForNext_strict_def Let_def enqueue_def
        clearBlendTimeouts_def)
qed

end
